theory Spec2Isabelle
  imports Complex_Main "HOL-Library.List_Lexorder" "HOL-Library.AList" "HOL-Library.Log_Nat"
begin

section \<open>Text: Python strings as lists of code points\<close>

text \<open>
  The program is Python 3: a \<^verbatim>\<open>str\<close> is a sequence of Unicode code points, and
  \<^verbatim>\<open>len\<close>, slicing and the \<^verbatim>\<open>re\<close> module all count code points. A string is
  therefore a list of integers, one per code point; \<open>str\<close> embeds an ASCII literal.
  The character tables of the interpreter (white space, decimal digits, word
  characters) are those of CPython 3.11 (Unicode 14.0.0).
\<close>

type_synonym uchar = int
type_synonym ustr = "uchar list"

definition str :: "string \<Rightarrow> ustr" where
  "str s = map of_char s"

definition in_ranges :: "(int \<times> int) list \<Rightarrow> uchar \<Rightarrow> bool" where
  "in_ranges rs c = list_ex (\<lambda>(lo, hi). lo \<le> c \<and> c \<le> hi) rs"

text \<open>\<^verbatim>\<open>str.isspace\<close>, which is also the class \<^verbatim>\<open>\s\<close> of a \<^verbatim>\<open>str\<close> pattern.\<close>

definition isspace :: "uchar \<Rightarrow> bool" where
  "isspace c = in_ranges [(9, 13), (28, 32), (133, 133), (160, 160), (5760, 5760),
     (8192, 8202), (8232, 8233), (8239, 8239), (8287, 8287), (12288, 12288)] c"

text \<open>The class \<^verbatim>\<open>\d\<close> of a \<^verbatim>\<open>str\<close> pattern: the decimal digits of every script.\<close>

definition isdecimal :: "uchar \<Rightarrow> bool" where
  "isdecimal c = in_ranges [
    (48, 57), (1632, 1641), (1776, 1785), (1984, 1993), (2406, 2415), (2534, 2543),
    (2662, 2671), (2790, 2799), (2918, 2927), (3046, 3055), (3174, 3183), (3302, 3311),
    (3430, 3439), (3558, 3567), (3664, 3673), (3792, 3801), (3872, 3881), (4160, 4169),
    (4240, 4249), (6112, 6121), (6160, 6169), (6470, 6479), (6608, 6617), (6784, 6793),
    (6800, 6809), (6992, 7001), (7088, 7097), (7232, 7241), (7248, 7257), (42528, 42537),
    (43216, 43225), (43264, 43273), (43472, 43481), (43504, 43513), (43600, 43609), (44016, 44025),
    (65296, 65305), (66720, 66729), (68912, 68921), (69734, 69743), (69872, 69881), (69942, 69951),
    (70096, 70105), (70384, 70393), (70736, 70745), (70864, 70873), (71248, 71257), (71360, 71369),
    (71472, 71481), (71904, 71913), (72016, 72025), (72784, 72793), (73040, 73049), (73120, 73129),
    (92768, 92777), (92864, 92873), (93008, 93017), (120782, 120831), (123200, 123209), (123632, 123641),
    (125264, 125273), (130032, 130041)
    ] c"

text \<open>
  The class \<^verbatim>\<open>\w\<close>: alphanumeric characters and the underscore. The ASCII part is
  tested first; \<open>unicode_alnum\<close> lists the alphanumeric ranges above U+007F.
\<close>

definition unicode_alnum :: "(int \<times> int) list" where
  "unicode_alnum = [
    (170, 170), (178, 179), (181, 181), (185, 186), (188, 190), (192, 214),
    (216, 246), (248, 705), (710, 721), (736, 740), (748, 748), (750, 750),
    (880, 884), (886, 887), (890, 893), (895, 895), (902, 902), (904, 906),
    (908, 908), (910, 929), (931, 1013), (1015, 1153), (1162, 1327), (1329, 1366),
    (1369, 1369), (1376, 1416), (1488, 1514), (1519, 1522), (1568, 1610), (1632, 1641),
    (1646, 1647), (1649, 1747), (1749, 1749), (1765, 1766), (1774, 1788), (1791, 1791),
    (1808, 1808), (1810, 1839), (1869, 1957), (1969, 1969), (1984, 2026), (2036, 2037),
    (2042, 2042), (2048, 2069), (2074, 2074), (2084, 2084), (2088, 2088), (2112, 2136),
    (2144, 2154), (2160, 2183), (2185, 2190), (2208, 2249), (2308, 2361), (2365, 2365),
    (2384, 2384), (2392, 2401), (2406, 2415), (2417, 2432), (2437, 2444), (2447, 2448),
    (2451, 2472), (2474, 2480), (2482, 2482), (2486, 2489), (2493, 2493), (2510, 2510),
    (2524, 2525), (2527, 2529), (2534, 2545), (2548, 2553), (2556, 2556), (2565, 2570),
    (2575, 2576), (2579, 2600), (2602, 2608), (2610, 2611), (2613, 2614), (2616, 2617),
    (2649, 2652), (2654, 2654), (2662, 2671), (2674, 2676), (2693, 2701), (2703, 2705),
    (2707, 2728), (2730, 2736), (2738, 2739), (2741, 2745), (2749, 2749), (2768, 2768),
    (2784, 2785), (2790, 2799), (2809, 2809), (2821, 2828), (2831, 2832), (2835, 2856),
    (2858, 2864), (2866, 2867), (2869, 2873), (2877, 2877), (2908, 2909), (2911, 2913),
    (2918, 2927), (2929, 2935), (2947, 2947), (2949, 2954), (2958, 2960), (2962, 2965),
    (2969, 2970), (2972, 2972), (2974, 2975), (2979, 2980), (2984, 2986), (2990, 3001),
    (3024, 3024), (3046, 3058), (3077, 3084), (3086, 3088), (3090, 3112), (3114, 3129),
    (3133, 3133), (3160, 3162), (3165, 3165), (3168, 3169), (3174, 3183), (3192, 3198),
    (3200, 3200), (3205, 3212), (3214, 3216), (3218, 3240), (3242, 3251), (3253, 3257),
    (3261, 3261), (3293, 3294), (3296, 3297), (3302, 3311), (3313, 3314), (3332, 3340),
    (3342, 3344), (3346, 3386), (3389, 3389), (3406, 3406), (3412, 3414), (3416, 3425),
    (3430, 3448), (3450, 3455), (3461, 3478), (3482, 3505), (3507, 3515), (3517, 3517),
    (3520, 3526), (3558, 3567), (3585, 3632), (3634, 3635), (3648, 3654), (3664, 3673),
    (3713, 3714), (3716, 3716), (3718, 3722), (3724, 3747), (3749, 3749), (3751, 3760),
    (3762, 3763), (3773, 3773), (3776, 3780), (3782, 3782), (3792, 3801), (3804, 3807),
    (3840, 3840), (3872, 3891), (3904, 3911), (3913, 3948), (3976, 3980), (4096, 4138),
    (4159, 4169), (4176, 4181), (4186, 4189), (4193, 4193), (4197, 4198), (4206, 4208),
    (4213, 4225), (4238, 4238), (4240, 4249), (4256, 4293), (4295, 4295), (4301, 4301),
    (4304, 4346), (4348, 4680), (4682, 4685), (4688, 4694), (4696, 4696), (4698, 4701),
    (4704, 4744), (4746, 4749), (4752, 4784), (4786, 4789), (4792, 4798), (4800, 4800),
    (4802, 4805), (4808, 4822), (4824, 4880), (4882, 4885), (4888, 4954), (4969, 4988),
    (4992, 5007), (5024, 5109), (5112, 5117), (5121, 5740), (5743, 5759), (5761, 5786),
    (5792, 5866), (5870, 5880), (5888, 5905), (5919, 5937), (5952, 5969), (5984, 5996),
    (5998, 6000), (6016, 6067), (6103, 6103), (6108, 6108), (6112, 6121), (6128, 6137),
    (6160, 6169), (6176, 6264), (6272, 6276), (6279, 6312), (6314, 6314), (6320, 6389),
    (6400, 6430), (6470, 6509), (6512, 6516), (6528, 6571), (6576, 6601), (6608, 6618),
    (6656, 6678), (6688, 6740), (6784, 6793), (6800, 6809), (6823, 6823), (6917, 6963),
    (6981, 6988), (6992, 7001), (7043, 7072), (7086, 7141), (7168, 7203), (7232, 7241),
    (7245, 7293), (7296, 7304), (7312, 7354), (7357, 7359), (7401, 7404), (7406, 7411),
    (7413, 7414), (7418, 7418), (7424, 7615), (7680, 7957), (7960, 7965), (7968, 8005),
    (8008, 8013), (8016, 8023), (8025, 8025), (8027, 8027), (8029, 8029), (8031, 8061),
    (8064, 8116), (8118, 8124), (8126, 8126), (8130, 8132), (8134, 8140), (8144, 8147),
    (8150, 8155), (8160, 8172), (8178, 8180), (8182, 8188), (8304, 8305), (8308, 8313),
    (8319, 8329), (8336, 8348), (8450, 8450), (8455, 8455), (8458, 8467), (8469, 8469),
    (8473, 8477), (8484, 8484), (8486, 8486), (8488, 8488), (8490, 8493), (8495, 8505),
    (8508, 8511), (8517, 8521), (8526, 8526), (8528, 8585), (9312, 9371), (9450, 9471),
    (10102, 10131), (11264, 11492), (11499, 11502), (11506, 11507), (11517, 11517), (11520, 11557),
    (11559, 11559), (11565, 11565), (11568, 11623), (11631, 11631), (11648, 11670), (11680, 11686),
    (11688, 11694), (11696, 11702), (11704, 11710), (11712, 11718), (11720, 11726), (11728, 11734),
    (11736, 11742), (11823, 11823), (12293, 12295), (12321, 12329), (12337, 12341), (12344, 12348),
    (12353, 12438), (12445, 12447), (12449, 12538), (12540, 12543), (12549, 12591), (12593, 12686),
    (12690, 12693), (12704, 12735), (12784, 12799), (12832, 12841), (12872, 12879), (12881, 12895),
    (12928, 12937), (12977, 12991), (13312, 19903), (19968, 42124), (42192, 42237), (42240, 42508),
    (42512, 42539), (42560, 42606), (42623, 42653), (42656, 42735), (42775, 42783), (42786, 42888),
    (42891, 42954), (42960, 42961), (42963, 42963), (42965, 42969), (42994, 43009), (43011, 43013),
    (43015, 43018), (43020, 43042), (43056, 43061), (43072, 43123), (43138, 43187), (43216, 43225),
    (43250, 43255), (43259, 43259), (43261, 43262), (43264, 43301), (43312, 43334), (43360, 43388),
    (43396, 43442), (43471, 43481), (43488, 43492), (43494, 43518), (43520, 43560), (43584, 43586),
    (43588, 43595), (43600, 43609), (43616, 43638), (43642, 43642), (43646, 43695), (43697, 43697),
    (43701, 43702), (43705, 43709), (43712, 43712), (43714, 43714), (43739, 43741), (43744, 43754),
    (43762, 43764), (43777, 43782), (43785, 43790), (43793, 43798), (43808, 43814), (43816, 43822),
    (43824, 43866), (43868, 43881), (43888, 44002), (44016, 44025), (44032, 55203), (55216, 55238),
    (55243, 55291), (63744, 64109), (64112, 64217), (64256, 64262), (64275, 64279), (64285, 64285),
    (64287, 64296), (64298, 64310), (64312, 64316), (64318, 64318), (64320, 64321), (64323, 64324),
    (64326, 64433), (64467, 64829), (64848, 64911), (64914, 64967), (65008, 65019), (65136, 65140),
    (65142, 65276), (65296, 65305), (65313, 65338), (65345, 65370), (65382, 65470), (65474, 65479),
    (65482, 65487), (65490, 65495), (65498, 65500), (65536, 65547), (65549, 65574), (65576, 65594),
    (65596, 65597), (65599, 65613), (65616, 65629), (65664, 65786), (65799, 65843), (65856, 65912),
    (65930, 65931), (66176, 66204), (66208, 66256), (66273, 66299), (66304, 66339), (66349, 66378),
    (66384, 66421), (66432, 66461), (66464, 66499), (66504, 66511), (66513, 66517), (66560, 66717),
    (66720, 66729), (66736, 66771), (66776, 66811), (66816, 66855), (66864, 66915), (66928, 66938),
    (66940, 66954), (66956, 66962), (66964, 66965), (66967, 66977), (66979, 66993), (66995, 67001),
    (67003, 67004), (67072, 67382), (67392, 67413), (67424, 67431), (67456, 67461), (67463, 67504),
    (67506, 67514), (67584, 67589), (67592, 67592), (67594, 67637), (67639, 67640), (67644, 67644),
    (67647, 67669), (67672, 67702), (67705, 67742), (67751, 67759), (67808, 67826), (67828, 67829),
    (67835, 67867), (67872, 67897), (67968, 68023), (68028, 68047), (68050, 68096), (68112, 68115),
    (68117, 68119), (68121, 68149), (68160, 68168), (68192, 68222), (68224, 68255), (68288, 68295),
    (68297, 68324), (68331, 68335), (68352, 68405), (68416, 68437), (68440, 68466), (68472, 68497),
    (68521, 68527), (68608, 68680), (68736, 68786), (68800, 68850), (68858, 68899), (68912, 68921),
    (69216, 69246), (69248, 69289), (69296, 69297), (69376, 69415), (69424, 69445), (69457, 69460),
    (69488, 69505), (69552, 69579), (69600, 69622), (69635, 69687), (69714, 69743), (69745, 69746),
    (69749, 69749), (69763, 69807), (69840, 69864), (69872, 69881), (69891, 69926), (69942, 69951),
    (69956, 69956), (69959, 69959), (69968, 70002), (70006, 70006), (70019, 70066), (70081, 70084),
    (70096, 70106), (70108, 70108), (70113, 70132), (70144, 70161), (70163, 70187), (70272, 70278),
    (70280, 70280), (70282, 70285), (70287, 70301), (70303, 70312), (70320, 70366), (70384, 70393),
    (70405, 70412), (70415, 70416), (70419, 70440), (70442, 70448), (70450, 70451), (70453, 70457),
    (70461, 70461), (70480, 70480), (70493, 70497), (70656, 70708), (70727, 70730), (70736, 70745),
    (70751, 70753), (70784, 70831), (70852, 70853), (70855, 70855), (70864, 70873), (71040, 71086),
    (71128, 71131), (71168, 71215), (71236, 71236), (71248, 71257), (71296, 71338), (71352, 71352),
    (71360, 71369), (71424, 71450), (71472, 71483), (71488, 71494), (71680, 71723), (71840, 71922),
    (71935, 71942), (71945, 71945), (71948, 71955), (71957, 71958), (71960, 71983), (71999, 71999),
    (72001, 72001), (72016, 72025), (72096, 72103), (72106, 72144), (72161, 72161), (72163, 72163),
    (72192, 72192), (72203, 72242), (72250, 72250), (72272, 72272), (72284, 72329), (72349, 72349),
    (72368, 72440), (72704, 72712), (72714, 72750), (72768, 72768), (72784, 72812), (72818, 72847),
    (72960, 72966), (72968, 72969), (72971, 73008), (73030, 73030), (73040, 73049), (73056, 73061),
    (73063, 73064), (73066, 73097), (73112, 73112), (73120, 73129), (73440, 73458), (73648, 73648),
    (73664, 73684), (73728, 74649), (74752, 74862), (74880, 75075), (77712, 77808), (77824, 78894),
    (82944, 83526), (92160, 92728), (92736, 92766), (92768, 92777), (92784, 92862), (92864, 92873),
    (92880, 92909), (92928, 92975), (92992, 92995), (93008, 93017), (93019, 93025), (93027, 93047),
    (93053, 93071), (93760, 93846), (93952, 94026), (94032, 94032), (94099, 94111), (94176, 94177),
    (94179, 94179), (94208, 100343), (100352, 101589), (101632, 101640), (110576, 110579), (110581, 110587),
    (110589, 110590), (110592, 110882), (110928, 110930), (110948, 110951), (110960, 111355), (113664, 113770),
    (113776, 113788), (113792, 113800), (113808, 113817), (119520, 119539), (119648, 119672), (119808, 119892),
    (119894, 119964), (119966, 119967), (119970, 119970), (119973, 119974), (119977, 119980), (119982, 119993),
    (119995, 119995), (119997, 120003), (120005, 120069), (120071, 120074), (120077, 120084), (120086, 120092),
    (120094, 120121), (120123, 120126), (120128, 120132), (120134, 120134), (120138, 120144), (120146, 120485),
    (120488, 120512), (120514, 120538), (120540, 120570), (120572, 120596), (120598, 120628), (120630, 120654),
    (120656, 120686), (120688, 120712), (120714, 120744), (120746, 120770), (120772, 120779), (120782, 120831),
    (122624, 122654), (123136, 123180), (123191, 123197), (123200, 123209), (123214, 123214), (123536, 123565),
    (123584, 123627), (123632, 123641), (124896, 124902), (124904, 124907), (124909, 124910), (124912, 124926),
    (124928, 125124), (125127, 125135), (125184, 125251), (125259, 125259), (125264, 125273), (126065, 126123),
    (126125, 126127), (126129, 126132), (126209, 126253), (126255, 126269), (126464, 126467), (126469, 126495),
    (126497, 126498), (126500, 126500), (126503, 126503), (126505, 126514), (126516, 126519), (126521, 126521),
    (126523, 126523), (126530, 126530), (126535, 126535), (126537, 126537), (126539, 126539), (126541, 126543),
    (126545, 126546), (126548, 126548), (126551, 126551), (126553, 126553), (126555, 126555), (126557, 126557),
    (126559, 126559), (126561, 126562), (126564, 126564), (126567, 126570), (126572, 126578), (126580, 126583),
    (126585, 126588), (126590, 126590), (126592, 126601), (126603, 126619), (126625, 126627), (126629, 126633),
    (126635, 126651), (127232, 127244), (130032, 130041), (131072, 173791), (173824, 177976), (177984, 178205),
    (178208, 183969), (183984, 191456), (194560, 195101), (196608, 201546)
    ]"

definition isword :: "uchar \<Rightarrow> bool" where
  "isword c = (if c < 128
     then (48 \<le> c \<and> c \<le> 57) \<or> (65 \<le> c \<and> c \<le> 90) \<or> c = 95 \<or> (97 \<le> c \<and> c \<le> 122)
     else in_ranges unicode_alnum c)"

definition is_az :: "uchar \<Rightarrow> bool" where
  "is_az c = (97 \<le> c \<and> c \<le> 122)"

definition is_AZ :: "uchar \<Rightarrow> bool" where
  "is_AZ c = (65 \<le> c \<and> c \<le> 90)"

definition is_09 :: "uchar \<Rightarrow> bool" where
  "is_09 c = (48 \<le> c \<and> c \<le> 57)"

text \<open>
  \<^verbatim>\<open>str.lower\<close>. Every pattern and keyword the program compares a lower-cased
  string with is ASCII, so the model is exact on the code points whose lower case
  contains an ASCII letter (\<open>A\<close>..\<open>Z\<close>, U+0130, U+212A) and leaves every other code point
  as it is: a code point that is not ASCII stays not ASCII.
\<close>

definition lower_char :: "uchar \<Rightarrow> ustr" where
  "lower_char c = (if is_AZ c then [c + 32]
     else if c = 304 then [105, 775]
     else if c = 8490 then [107]
     else [c])"

definition lower :: "ustr \<Rightarrow> ustr" where
  "lower s = concat (map lower_char s)"

text \<open>\<^verbatim>\<open>s.strip(chars)\<close> and \<^verbatim>\<open>s.strip()\<close>.\<close>

definition strip_chars :: "(uchar \<Rightarrow> bool) \<Rightarrow> ustr \<Rightarrow> ustr" where
  "strip_chars p s = rev (dropWhile p (rev (dropWhile p s)))"

definition strip :: "ustr \<Rightarrow> ustr" where
  "strip s = strip_chars isspace s"

text \<open>\<^verbatim>\<open>s.split()\<close>: the maximal runs of characters that are not white space.\<close>

function split_ws :: "ustr \<Rightarrow> ustr list" where
  "split_ws s = (case dropWhile isspace s of
       [] \<Rightarrow> []
     | c # cs \<Rightarrow> takeWhile (\<lambda>x. \<not> isspace x) (c # cs) # split_ws (dropWhile (\<lambda>x. \<not> isspace x) cs))"
  by pat_completeness auto
termination
proof (relation "measure length")
  show "wf (measure length)" by simp
next
  fix s :: ustr and c cs
  assume "dropWhile isspace s = c # cs"
  then have "length cs < length s"
    using length_dropWhile_le [of isspace s] by simp
  moreover have "length (dropWhile (\<lambda>x. \<not> isspace x) cs) \<le> length cs"
    by (rule length_dropWhile_le)
  ultimately show "(dropWhile (\<lambda>x. \<not> isspace x) cs, s) \<in> measure length" by simp
qed

text \<open>\<^verbatim>\<open>sep.join(parts)\<close>.\<close>

fun join :: "ustr \<Rightarrow> ustr list \<Rightarrow> ustr" where
  "join sep [] = []"
| "join sep [x] = x"
| "join sep (x # y # ys) = x @ sep @ join sep (y # ys)"

text \<open>\<^verbatim>\<open>s.startswith(p)\<close> and \<^verbatim>\<open>p in s\<close>.\<close>

fun startswith :: "ustr \<Rightarrow> ustr \<Rightarrow> bool" where
  "startswith s [] = True"
| "startswith [] (p # ps) = False"
| "startswith (c # cs) (p # ps) = (c = p \<and> startswith cs ps)"

fun contains :: "ustr \<Rightarrow> ustr \<Rightarrow> bool" where
  "contains p [] = (p = [])"
| "contains p (c # cs) = (startswith (c # cs) p \<or> contains p cs)"

text \<open>\<^verbatim>\<open>re.sub(r'\s+', ' ', s)\<close>: every maximal run of white space becomes one space.
  The flag says that the previous character was white space.\<close>

fun collapse_from :: "bool \<Rightarrow> ustr \<Rightarrow> ustr" where
  "collapse_from b [] = []"
| "collapse_from b (c # cs) =
     (if isspace c then (if b then collapse_from True cs else 32 # collapse_from True cs)
      else c # collapse_from False cs)"

definition collapse_ws :: "ustr \<Rightarrow> ustr" where
  "collapse_ws s = collapse_from False s"

text \<open>\<^verbatim>\<open>re.sub(r'\s+', '', s)\<close>: white space is removed.\<close>

definition remove_ws :: "ustr \<Rightarrow> ustr" where
  "remove_ws s = filter (\<lambda>c. \<not> isspace c) s"


section \<open>Regular expressions as \<^verbatim>\<open>re\<close> matches them\<close>

text \<open>
  The patterns of the program are terms of \<open>rx\<close>. The matcher is the backtracking
  matcher of \<^verbatim>\<open>re\<close>: \<open>rmatch r st\<close> lists the states in which a match of \<open>r\<close> begun
  in \<open>st\<close> can end, in the order in which \<^verbatim>\<open>re\<close> tries them (the left alternative
  first, the longest repetition first), so the head of the list is the match that
  \<^verbatim>\<open>re\<close> reports. A state is the position, the character before it (for \<^verbatim>\<open>\b\<close>),
  the rest of the text and the groups captured so far.
\<close>

datatype rx =
    Cls "uchar \<Rightarrow> bool"
  | Eps
  | Seq rx rx
  | Alt rx rx
  | Star rx
  | Bol
  | Eol
  | Wb
  | Grp nat rx

datatype mst = MSt (pos: nat) (prev: "uchar option") (rest: ustr) (caps: "(nat \<times> ustr) list")

text \<open>A greedy repetition: one more round first, and a round must consume something.\<close>

primrec star_from :: "nat \<Rightarrow> (mst \<Rightarrow> mst list) \<Rightarrow> mst \<Rightarrow> mst list" where
  "star_from 0 f st = [st]"
| "star_from (Suc n) f st =
     concat (map (\<lambda>st'. if length (rest st') < length (rest st) then star_from n f st' else [])
                 (f st)) @ [st]"

definition at_boundary :: "mst \<Rightarrow> bool" where
  "at_boundary st =
     ((case prev st of None \<Rightarrow> False | Some c \<Rightarrow> isword c)
      \<noteq> (case rest st of [] \<Rightarrow> False | c # _ \<Rightarrow> isword c))"

primrec rmatch :: "rx \<Rightarrow> mst \<Rightarrow> mst list" where
  "rmatch (Cls p) st = (case rest st of
       [] \<Rightarrow> []
     | c # cs \<Rightarrow> if p c then [MSt (Suc (pos st)) (Some c) cs (caps st)] else [])"
| "rmatch Eps st = [st]"
| "rmatch (Seq a b) st = concat (map (rmatch b) (rmatch a st))"
| "rmatch (Alt a b) st = rmatch a st @ rmatch b st"
| "rmatch (Star a) st = star_from (length (rest st)) (rmatch a) st"
| "rmatch Bol st = (if pos st = 0 then [st] else [])"
| "rmatch Eol st = (if rest st = [] \<or> rest st = [10] then [st] else [])"
| "rmatch Wb st = (if at_boundary st then [st] else [])"
| "rmatch (Grp k a) st =
     map (\<lambda>st'. MSt (pos st') (prev st') (rest st')
                   (caps st' @ [(k, take (pos st' - pos st) (rest st))]))
         (rmatch a st)"

text \<open>\<^verbatim>\<open>m.group(k)\<close>: the last capture of group \<open>k\<close>.\<close>

definition group :: "mst \<Rightarrow> nat \<Rightarrow> ustr" where
  "group st k = (case map_of (rev (caps st)) k of None \<Rightarrow> [] | Some g \<Rightarrow> g)"

text \<open>\<^verbatim>\<open>re.match\<close>, \<^verbatim>\<open>re.fullmatch\<close> and \<^verbatim>\<open>re.search\<close>. A search returns the start of
  the leftmost match and the state at its end.\<close>

definition re_match :: "rx \<Rightarrow> ustr \<Rightarrow> mst option" where
  "re_match r s = (case rmatch r (MSt 0 None s []) of [] \<Rightarrow> None | e # _ \<Rightarrow> Some e)"

definition re_fullmatch :: "rx \<Rightarrow> ustr \<Rightarrow> bool" where
  "re_fullmatch r s = list_ex (\<lambda>e. rest e = []) (rmatch r (MSt 0 None s []))"

fun search_at :: "rx \<Rightarrow> nat \<Rightarrow> uchar option \<Rightarrow> ustr \<Rightarrow> (nat \<times> mst) option" where
  "search_at r p pv [] =
     (case rmatch r (MSt p pv [] []) of [] \<Rightarrow> None | e # _ \<Rightarrow> Some (p, e))"
| "search_at r p pv (c # cs) =
     (case rmatch r (MSt p pv (c # cs) []) of
        [] \<Rightarrow> search_at r (Suc p) (Some c) cs
      | e # _ \<Rightarrow> Some (p, e))"

definition re_search :: "rx \<Rightarrow> ustr \<Rightarrow> (nat \<times> mst) option" where
  "re_search r s = search_at r 0 None s"

definition re_found :: "rx \<Rightarrow> ustr \<Rightarrow> bool" where
  "re_found r s = (re_search r s \<noteq> None)"

text \<open>
  The scan shared by \<^verbatim>\<open>re.sub\<close>, \<^verbatim>\<open>re.findall\<close> and \<^verbatim>\<open>re.split\<close>: the text cut into
  the characters outside every match and the successive matches, left to right, none
  overlapping another. Every pattern the program scans with consumes at least one
  character when it matches; a match that consumes nothing is passed over.
\<close>

datatype piece = Gap uchar | Hit mst

function scan :: "rx \<Rightarrow> nat \<Rightarrow> uchar option \<Rightarrow> ustr \<Rightarrow> piece list" where
  "scan r p pv [] = []"
| "scan r p pv (c # cs) =
     (case rmatch r (MSt p pv (c # cs) []) of
        [] \<Rightarrow> Gap c # scan r (Suc p) (Some c) cs
      | e # _ \<Rightarrow>
          if length (rest e) < length (c # cs)
          then Hit e # scan r (pos e) (prev e) (rest e)
          else Gap c # scan r (Suc p) (Some c) cs)"
  by pat_completeness auto
termination
  by (relation "measure (\<lambda>(r, p, pv, s). length s)") auto

text \<open>\<^verbatim>\<open>re.sub(r, repl, s)\<close>, the replacement computed from the match.\<close>

definition re_sub :: "rx \<Rightarrow> (mst \<Rightarrow> ustr) \<Rightarrow> ustr \<Rightarrow> ustr" where
  "re_sub r repl s =
     concat (map (\<lambda>pc. case pc of Gap c \<Rightarrow> [c] | Hit e \<Rightarrow> repl e) (scan r 0 None s))"

text \<open>\<^verbatim>\<open>re.findall(r, s)\<close> for a pattern without groups: the matched texts. The text
  of a match is what the state at its end has consumed since the start.\<close>

fun hits :: "nat \<Rightarrow> ustr \<Rightarrow> piece list \<Rightarrow> ustr list" where
  "hits p s [] = []"
| "hits p s (Gap c # ps) = hits (Suc p) (drop 1 s) ps"
| "hits p s (Hit e # ps) = take (pos e - p) s # hits (pos e) (drop (pos e - p) s) ps"

definition re_findall :: "rx \<Rightarrow> ustr \<Rightarrow> ustr list" where
  "re_findall r s = hits 0 s (scan r 0 None s)"

text \<open>\<^verbatim>\<open>re.split(r, s)\<close> for a pattern without groups: the texts between the matches.\<close>

fun fields :: "ustr \<Rightarrow> piece list \<Rightarrow> ustr list" where
  "fields cur [] = [cur]"
| "fields cur (Gap c # ps) = fields (cur @ [c]) ps"
| "fields cur (Hit e # ps) = cur # fields [] ps"

definition re_split :: "rx \<Rightarrow> ustr \<Rightarrow> ustr list" where
  "re_split r s = fields [] (scan r 0 None s)"

subsection \<open>Writing patterns\<close>

text \<open>
  Under \<^verbatim>\<open>re.I\<close> two characters match when their simple lower cases agree; beside the
  ASCII letters, \<^verbatim>\<open>re\<close> lets U+0130 and U+0131 match \<open>i\<close>, U+017F match \<open>s\<close> and U+212A
  match \<open>k\<close>. The letters written in the patterns of the program are all ASCII.
\<close>

definition fold_case :: "uchar \<Rightarrow> uchar" where
  "fold_case c = (if is_AZ c then c + 32
     else if c = 304 \<or> c = 305 then 105
     else if c = 383 then 115
     else if c = 8490 then 107
     else c)"

definition chr :: "char \<Rightarrow> rx" where
  "chr c = Cls (\<lambda>x. x = of_char c)"

definition ichr :: "char \<Rightarrow> rx" where
  "ichr c = Cls (\<lambda>x. fold_case x = fold_case (of_char c))"

text \<open>A sequence of patterns, and the choice between several.\<close>

fun seqs :: "rx list \<Rightarrow> rx" where
  "seqs [] = Eps"
| "seqs [r] = r"
| "seqs (r # rs) = Seq r (seqs rs)"

fun alts :: "rx list \<Rightarrow> rx" where
  "alts [] = Eps"
| "alts [r] = r"
| "alts (r # rs) = Alt r (alts rs)"

text \<open>A literal word, as written and under \<^verbatim>\<open>re.I\<close>.\<close>

definition lit :: "string \<Rightarrow> rx" where
  "lit s = seqs (map chr s)"

definition ilit :: "string \<Rightarrow> rx" where
  "ilit s = seqs (map ichr s)"

definition Plus :: "rx \<Rightarrow> rx" where
  "Plus r = Seq r (Star r)"

definition Opt :: "rx \<Rightarrow> rx" where
  "Opt r = Alt r Eps"

text \<open>\<^verbatim>\<open>r{n}\<close> and \<^verbatim>\<open>r{n,m}\<close>.\<close>

definition times :: "nat \<Rightarrow> rx \<Rightarrow> rx" where
  "times n r = seqs (replicate n r)"

definition upto_times :: "nat \<Rightarrow> nat \<Rightarrow> rx \<Rightarrow> rx" where
  "upto_times n m r = seqs (replicate n r @ replicate (m - n) (Opt r))"

definition white :: rx where "white = Cls isspace"
definition digit :: rx where "digit = Cls isdecimal"
definition dot :: rx where "dot = Cls (\<lambda>c. c \<noteq> 10)"

text \<open>The letters of a word with \<^verbatim>\<open>\s*\<close> between them, under \<^verbatim>\<open>re.I\<close>:
  \<^verbatim>\<open>A\s*B\s*S\<close> is \<open>spaced ''ABS''\<close>.\<close>

fun spaced :: "string \<Rightarrow> rx" where
  "spaced [] = Eps"
| "spaced [c] = ichr c"
| "spaced (c # cs) = Seq (ichr c) (Seq (Star white) (spaced cs))"


section \<open>The patterns of the program\<close>

text \<open>\<^verbatim>\<open>(ARTICLE\s+INFO|A\s*R\s*T\s*I\s*C\s*L\s*E\s+I\s*N\s*F\s*O|a\s*r\s*t\s*i\s*c\s*l\s*e\s+i\s*n\s*f\s*o)\<close>,
  \<^verbatim>\<open>re.I\<close>.\<close>

definition RE_ARTINFO :: rx where
  "RE_ARTINFO = Grp 1 (alts [
     seqs [ilit ''ARTICLE'', Plus white, ilit ''INFO''],
     seqs [spaced ''ARTICLE'', Plus white, spaced ''INFO''],
     seqs [spaced ''article'', Plus white, spaced ''info'']])"

text \<open>\<^verbatim>\<open>(ABSTRACT|A\s*B\s*S\s*T\s*R\s*A\s*C\s*T|a\s*b\s*s\s*t\s*r\s*a\s*c\s*t)\<close>, \<^verbatim>\<open>re.I\<close>.\<close>

definition RE_ABS_HDR :: rx where
  "RE_ABS_HDR = Grp 1 (alts [ilit ''ABSTRACT'', spaced ''ABSTRACT'', spaced ''abstract''])"

text \<open>\<^verbatim>\<open>(ARTICLE\s+INFO|ABSTRACT|Keywords|Key\s*words|Article\s+history|Received|Accepted|Available\s+online)\<close>,
  \<^verbatim>\<open>re.I\<close>.\<close>

definition RE_STOP_ANY :: rx where
  "RE_STOP_ANY = Grp 1 (alts [
     seqs [ilit ''ARTICLE'', Plus white, ilit ''INFO''],
     ilit ''ABSTRACT'',
     ilit ''Keywords'',
     seqs [ilit ''Key'', Star white, ilit ''words''],
     seqs [ilit ''Article'', Plus white, ilit ''history''],
     ilit ''Received'',
     ilit ''Accepted'',
     seqs [ilit ''Available'', Plus white, ilit ''online'']])"

text \<open>\<^verbatim>\<open>(^|\s)(Introduction|1\.\s*Introduction)\b\<close>, \<^verbatim>\<open>re.I\<close>.\<close>

definition RE_INTRO :: rx where
  "RE_INTRO = seqs [
     Grp 1 (Alt Bol white),
     Grp 2 (Alt (ilit ''Introduction'')
                (seqs [chr CHR ''1'', chr CHR ''.'', Star white, ilit ''Introduction''])),
     Wb]"

text \<open>\<^verbatim>\<open>\b(Key\s*words|Keywords)\b\<close>, \<^verbatim>\<open>re.I\<close>.\<close>

definition RE_KEYWORDS_HDR :: rx where
  "RE_KEYWORDS_HDR = seqs [
     Wb,
     Grp 1 (Alt (seqs [ilit ''Key'', Star white, ilit ''words'']) (ilit ''Keywords'')),
     Wb]"

text \<open>\<^verbatim>\<open>\b(Department|Dept\. ?|School|Institute|Faculty|Center|Centre|Laboratory|Lab|University|Universit|College|Hospital|Academy|Research\s+Group|IIT|MIT|ETH|CNRS|INRIA)\b\<close>,
  \<^verbatim>\<open>re.I\<close>.\<close>

definition AFF_CUES :: rx where
  "AFF_CUES = seqs [
     Wb,
     Grp 1 (alts [
       ilit ''Department'',
       seqs [ilit ''Dept'', chr CHR ''.'', Opt (chr CHR '' '')],
       ilit ''School'', ilit ''Institute'', ilit ''Faculty'', ilit ''Center'', ilit ''Centre'',
       ilit ''Laboratory'', ilit ''Lab'', ilit ''University'', ilit ''Universit'',
       ilit ''College'', ilit ''Hospital'', ilit ''Academy'',
       seqs [ilit ''Research'', Plus white, ilit ''Group''],
       ilit ''IIT'', ilit ''MIT'', ilit ''ETH'', ilit ''CNRS'', ilit ''INRIA'']),
     Wb]"

text \<open>\<^verbatim>\<open>(Department|School|Institute|Faculty|Center|Centre|Laboratory|University|College|Hospital|Academy)\<close>,
  \<^verbatim>\<open>re.I\<close>.\<close>

definition AFF_CUES_MERGED :: rx where
  "AFF_CUES_MERGED = Grp 1 (alts [
     ilit ''Department'', ilit ''School'', ilit ''Institute'', ilit ''Faculty'', ilit ''Center'',
     ilit ''Centre'', ilit ''Laboratory'', ilit ''University'', ilit ''College'',
     ilit ''Hospital'', ilit ''Academy''])"

section \<open>Utilities\<close>

text \<open>The replacement \<^verbatim>\<open>r'\1 \2'\<close>.\<close>

definition repl_1_2 :: "mst \<Rightarrow> ustr" where
  "repl_1_2 e = group e 1 @ [32] @ group e 2"

text \<open>\<^verbatim>\<open>([a-z])([A-Z])\<close>.\<close>

definition RE_CAMEL :: rx where
  "RE_CAMEL = Seq (Grp 1 (Cls is_az)) (Grp 2 (Cls is_AZ))"

text \<open>\<^verbatim>\<open>\b(of|and|the|for|in|at|to|with|from|by|de|la|le|des|du)([A-Z])\<close>, \<^verbatim>\<open>re.I\<close>:
  under the flag the class \<^verbatim>\<open>[A-Z]\<close> takes a letter of either case.\<close>

definition RE_GLUED :: rx where
  "RE_GLUED = seqs [
     Wb,
     Grp 1 (alts (map ilit [''of'', ''and'', ''the'', ''for'', ''in'', ''at'', ''to'', ''with'',
                            ''from'', ''by'', ''de'', ''la'', ''le'', ''des'', ''du''])),
     Grp 2 (Cls (\<lambda>c. is_az (fold_case c)))]"

text \<open>\<^verbatim>\<open>\b(of)(the|a|an)\b\<close>, \<^verbatim>\<open>re.I\<close>.\<close>

definition RE_OFTHE :: rx where
  "RE_OFTHE = seqs [
     Wb,
     Grp 1 (ilit ''of''),
     Grp 2 (alts [ilit ''the'', ilit ''a'', ilit ''an'']),
     Wb]"

definition fix_merged_text :: "ustr \<Rightarrow> ustr" where
  "fix_merged_text text0 =
     (if text0 = [] then []
      else let text = strip text0; words = split_ws text in
        if length words \<ge> 3 then text
        else if length text > 15 \<and> length words \<le> 2 then
          (let fixed = re_sub RE_CAMEL repl_1_2 text;
               fixed = re_sub RE_GLUED repl_1_2 fixed;
               fixed = re_sub RE_OFTHE repl_1_2 fixed
           in fixed)
        else if length words = 1 \<and> length text > 10 then re_sub RE_CAMEL repl_1_2 text
        else text)"

definition aff_keywords :: "ustr list" where
  "aff_keywords = map str [
     ''department'', ''school'', ''institute'', ''faculty'', ''center'', ''centre'', ''laboratory'',
     ''university'', ''college'', ''hospital'', ''academy'', ''iit'', ''mit'', ''eth'', ''cnrs'',
     ''inria'']"

text \<open>\<^verbatim>\<open>\b(USA|UK|India|China|Germany|France|Japan|Canada|Australia)\b\<close>, \<^verbatim>\<open>re.I\<close>.\<close>

definition RE_COUNTRY :: rx where
  "RE_COUNTRY = seqs [
     Wb,
     Grp 1 (alts (map ilit [''USA'', ''UK'', ''India'', ''China'', ''Germany'', ''France'',
                            ''Japan'', ''Canada'', ''Australia''])),
     Wb]"

definition is_likely_affiliation :: "ustr \<Rightarrow> bool" where
  "is_likely_affiliation text0 =
     (if text0 = [] then False
      else let t = strip text0; t_collapsed = lower (remove_ws t) in
        if list_ex (\<lambda>kw. contains kw t_collapsed) aff_keywords then True
        else if re_found (upto_times 5 6 digit) t then True
        else if re_found RE_COUNTRY t then True
        else False)"

text \<open>The patterns of \<open>is_header_banner\<close>, in the order of the source:
  \<^verbatim>\<open>^journal\s+of\s+computational\s+science\s*$\<close>,
  \<^verbatim>\<open>journal\s+of\s+computational\s+science\s+\d+\s*\(\d{4}\)\<close> and
  \<^verbatim>\<open>^\d+\s*\(\d{4}\)\s*\d+[\sD\-]*\d*$\<close>, where \<open>D\<close> stands for the dash U+2013.\<close>

definition RE_JOCS :: rx where
  "RE_JOCS = seqs [lit ''journal'', Plus white, lit ''of'', Plus white, lit ''computational'', Plus white,
                   lit ''science'']"

definition RE_JOCS_ONLY :: rx where
  "RE_JOCS_ONLY = seqs [Bol, RE_JOCS, Star white, Eol]"

definition RE_JOCS_VOLUME :: rx where
  "RE_JOCS_VOLUME = seqs [RE_JOCS, Plus white, Plus digit, Star white,
     chr CHR ''('', times 4 digit, chr CHR '')'']"

definition RE_VOLUME_PAGES :: rx where
  "RE_VOLUME_PAGES = seqs [Bol, Plus digit, Star white, chr CHR ''('', times 4 digit, chr CHR '')'',
     Star white, Plus digit, Star (Cls (\<lambda>c. isspace c \<or> c = 8211 \<or> c = 45)), Star digit, Eol]"

definition banner_patterns :: "ustr list" where
  "banner_patterns = map str [
     ''sciencedirect'', ''contents lists available'', ''contentslistsavailable'',
     ''journal homepage'', ''journalhomepage'', ''www.elsevier.com'', ''elsevier.com/locate'',
     ''check for updates'', ''checkforupdates'', ''crossmark'']"

definition is_header_banner :: "ustr \<Rightarrow> bool" where
  "is_header_banner text0 =
     (if text0 = [] then False
      else let t = strip text0; t_lower = lower t; t_collapsed = remove_ws t_lower in
        if length t < 3 then False
        else if contains (str ''journalofcomputationalscience'') t_collapsed then True
        else if startswith t_lower (str ''journal of computational science'') then True
        else if re_match RE_JOCS_ONLY t_lower \<noteq> None then True
        else if re_found RE_JOCS_VOLUME t_lower then True
        else if re_match RE_VOLUME_PAGES (strip t) \<noteq> None then True
        else if list_ex (\<lambda>pattern. contains pattern t_collapsed \<or> contains pattern t_lower)
                  banner_patterns then True
        else if t_collapsed \<in> set [str ''sciencedirect'', str ''elsevier''] then True
        else False)"


section \<open>Python floats\<close>

text \<open>
  The coordinates, font sizes and tolerances of the program are Python floats, that is
  binary64 numbers. A finite binary64 number is written as the rational number it
  denotes; comparisons, \<^verbatim>\<open>abs\<close>, \<^verbatim>\<open>min\<close> and \<^verbatim>\<open>max\<close> are exact on them, and a sum,
  difference or product is the exact result rounded by \<open>binary64\<close>: to the nearest number
  with 53 significant bits and an exponent of at least \<open>-1074\<close>, a tie going to the
  even significand. A decimal literal of the program such as \<^verbatim>\<open>0.35\<close> is the rounded
  value \<open>binary64 0.35\<close>; the integers the program mixes with floats (\<open>0\<close>, \<open>5\<close>, \<open>20\<close>) are
  binary64 numbers as they are.

  Infinities and NaN are left out: a page gives finite numbers. Where a difference of two
  finite numbers would overflow, \<open>binary64\<close> returns a number beyond every finite binary64
  number instead of an infinity; the program only compares such a difference with a finite
  tolerance, and the comparison comes out the same.
\<close>

type_synonym pyfloat = rat

definition pow2 :: "int \<Rightarrow> rat" where
  "pow2 e = (if 0 \<le> e then of_int (2 ^ nat e) else 1 / of_int (2 ^ nat (- e)))"

definition round_half_even :: "rat \<Rightarrow> int" where
  "round_half_even x =
     (let f = \<lfloor>x\<rfloor>; r = x - of_int f in
      if r < 1 / 2 then f else if 1 / 2 < r then f + 1 else if even f then f else f + 1)"

text \<open>The exponent of the last significant bit of a positive number \<open>a\<close>: with \<open>p / d\<close>
  the number in lowest terms, \<open>e0\<close> puts the significand \<open>a / 2 ^ e0\<close> between \<open>2 ^ 52\<close>
  and \<open>2 ^ 54\<close>, and the exponent chosen puts it between \<open>2 ^ 52\<close> and \<open>2 ^ 53\<close>.\<close>

definition pick_exponent :: "int \<Rightarrow> rat \<Rightarrow> int" where
  "pick_exponent e0 a = (if a < pow2 (e0 + 53) then e0 else e0 + 1)"

definition exponent_of :: "rat \<Rightarrow> int" where
  "exponent_of a = (case quotient_of a of (p, d) \<Rightarrow> pick_exponent (bitlen p - bitlen d - 53) a)"

definition round_at :: "int \<Rightarrow> rat \<Rightarrow> rat" where
  "round_at e a = of_int (round_half_even (a / pow2 e)) * pow2 e"

definition binary64 :: "rat \<Rightarrow> pyfloat" where
  "binary64 q =
     (if q = 0 then 0
      else sgn q * round_at (max (exponent_of \<bar>q\<bar>) (- 1074)) \<bar>q\<bar>)"

definition py_add :: "pyfloat \<Rightarrow> pyfloat \<Rightarrow> pyfloat" where
  "py_add a b = binary64 (a + b)"

definition py_sub :: "pyfloat \<Rightarrow> pyfloat \<Rightarrow> pyfloat" where
  "py_sub a b = binary64 (a - b)"

definition py_mul :: "pyfloat \<Rightarrow> pyfloat \<Rightarrow> pyfloat" where
  "py_mul a b = binary64 (a * b)"

section \<open>Words and lines\<close>

text \<open>
  A word as the PDF library hands it over and a line as \<open>cluster_lines\<close> builds it.
  A dictionary is an association list in insertion order.
\<close>

record word =
  w_text :: ustr
  w_x0 :: pyfloat
  w_x1 :: pyfloat
  w_top :: pyfloat
  w_size :: "pyfloat option"

record line =
  li_y :: pyfloat
  li_text :: ustr
  li_max_size :: pyfloat

record bucket =
  b_y :: pyfloat
  b_ws :: "word list"

text \<open>\<^verbatim>\<open>max(xs)\<close> of a sequence that starts with \<open>x\<close>.\<close>

definition max_from :: "pyfloat \<Rightarrow> pyfloat list \<Rightarrow> pyfloat" where
  "max_from x xs = fold max xs x"

definition find_header_end_y_banners :: "line list \<Rightarrow> pyfloat \<Rightarrow> pyfloat list" where
  "find_header_end_y_banners lines page_height =
     map li_y (filter (\<lambda>li. is_header_banner (li_text li))
                      (takeWhile (\<lambda>li. \<not> li_y li > py_mul page_height (binary64 0.35)) lines))"

definition find_header_end_y :: "line list \<Rightarrow> pyfloat \<Rightarrow> pyfloat" where
  "find_header_end_y lines page_height =
     (case find_header_end_y_banners lines page_height of
        [] \<Rightarrow> py_mul page_height (binary64 0.10)
      | y # ys \<Rightarrow> py_add (max_from y ys) 5)"

subsection \<open>The clusterer\<close>

text \<open>The first loop of \<open>cluster_lines\<close>: a word joins the first bucket whose \<open>y\<close> is
  within \<open>y_tol\<close> of its top, and opens a bucket at the end when there is none.\<close>

fun add_word :: "pyfloat \<Rightarrow> word \<Rightarrow> bucket list \<Rightarrow> bucket list" where
  "add_word y_tol w [] = [\<lparr>b_y = w_top w, b_ws = [w]\<rparr>]"
| "add_word y_tol w (b # bs) =
     (if \<bar>py_sub (b_y b) (w_top w)\<bar> \<le> y_tol then b\<lparr>b_ws := b_ws b @ [w]\<rparr> # bs
      else b # add_word y_tol w bs)"

definition assign_buckets :: "pyfloat \<Rightarrow> word list \<Rightarrow> bucket list" where
  "assign_buckets y_tol words = foldl (\<lambda>bs w. add_word y_tol w bs) [] words"

text \<open>The second loop: the parts of one line, its text and the line itself.\<close>

fun build_parts :: "pyfloat \<Rightarrow> word list \<Rightarrow> ustr list" where
  "build_parts x_tol [] = []"
| "build_parts x_tol [w] = [w_text w]"
| "build_parts x_tol (w # w' # ws) =
     (if py_sub (w_x0 w') (w_x1 w) > x_tol then [w_text w, [32]] else [w_text w])
     @ build_parts x_tol (w' # ws)"

definition line_text :: "pyfloat \<Rightarrow> word list \<Rightarrow> ustr" where
  "line_text x_tol ws = collapse_ws (strip (join [32] (build_parts x_tol ws)))"

definition size_or_0 :: "word \<Rightarrow> pyfloat" where
  "size_or_0 w = (case w_size w of None \<Rightarrow> 0 | Some s \<Rightarrow> s)"

text \<open>A bucket with an empty text gives no line. The text of a bucket without words
  is empty, so \<^verbatim>\<open>max\<close> is never taken of an empty sequence.\<close>

definition bucket_line :: "pyfloat \<Rightarrow> bucket \<Rightarrow> line list" where
  "bucket_line x_tol b =
     (let ws = sort_key w_x0 (b_ws b); text = line_text x_tol ws in
      if text \<noteq> [] then
        (case ws of
           [] \<Rightarrow> []
         | w # ws' \<Rightarrow> [\<lparr>li_y = b_y b, li_text = text,
                         li_max_size = max_from (size_or_0 w) (map size_or_0 ws')\<rparr>])
      else [])"

definition cluster_lines :: "pyfloat \<Rightarrow> pyfloat \<Rightarrow> word list \<Rightarrow> line list" where
  "cluster_lines y_tol x_tol words =
     concat (map (bucket_line x_tol) (sort_key b_y (assign_buckets y_tol words)))"

fun find_y :: "line list \<Rightarrow> rx \<Rightarrow> pyfloat option" where
  "find_y [] regex = None"
| "find_y (li # lines) regex =
     (if re_found regex (li_text li) then Some (li_y li) else find_y lines regex)"

section \<open>Author parsing\<close>

record author =
  name :: ustr
  markers :: "ustr list"
  corresponding :: bool

record accumulator =
  name_parts :: "ustr list"
  cur_markers :: "ustr list"
  cur_corresponding :: bool

definition new_accumulator :: accumulator where
  "new_accumulator = \<lparr>name_parts = [], cur_markers = [], cur_corresponding = False\<rparr>"

text \<open>The superscript digits U+2070, U+00B9, U+00B2, U+00B3, U+2074..U+2079 in the
  order of their values, and the two translation tables.\<close>

definition superscripts :: ustr where
  "superscripts = [8304, 185, 178, 179, 8308, 8309, 8310, 8311, 8312, 8313]"

definition translate :: "(uchar \<times> uchar) list \<Rightarrow> ustr \<Rightarrow> ustr" where
  "translate table s = map (\<lambda>c. case map_of table c of None \<Rightarrow> c | Some d \<Rightarrow> d) s"

definition SUP_TO_DIGIT :: "(uchar \<times> uchar) list" where
  "SUP_TO_DIGIT = zip superscripts (str ''0123456789'')"

definition DIGIT_TO_SUP :: "(uchar \<times> uchar) list" where
  "DIGIT_TO_SUP = zip (str ''0123456789'') superscripts"

text \<open>The asterisks \<open>*\<close>, U+2217 and U+204E.\<close>

definition is_asterisk :: "uchar \<Rightarrow> bool" where
  "is_asterisk c = (c = 42 \<or> c = 8727 \<or> c = 8270)"

text \<open>\<^verbatim>\<open>[A-Za-z\<dots>]+|[0-9]+|[\<dots>]|[,.*\<dots>]\<close>: a run of letters (ASCII or U+00C0..U+017E), a run
  of ASCII digits, one superscript digit, or one of comma, full stop and the asterisks.\<close>

definition RE_TOKEN :: rx where
  "RE_TOKEN = alts [
     Plus (Cls (\<lambda>c. is_AZ c \<or> is_az c \<or> (192 \<le> c \<and> c \<le> 382))),
     Plus (Cls is_09),
     Cls (\<lambda>c. c \<in> set superscripts),
     Cls (\<lambda>c. c = 44 \<or> c = 46 \<or> is_asterisk c)]"

definition extract_tokens_from_lines :: "line list \<Rightarrow> ustr list" where
  "extract_tokens_from_lines lines = concat (map (\<lambda>li. re_findall RE_TOKEN (li_text li)) lines)"

text \<open>The markers are a Python set: \<open>cur_markers\<close> holds each once, and \<open>sort\<close> orders
  them as \<^verbatim>\<open>sorted\<close> orders strings, by code points.\<close>

definition finalize_author :: "accumulator \<Rightarrow> author" where
  "finalize_author cur =
     (let name = strip (join [32] (name_parts cur));
          name = fix_merged_text name
      in \<lparr>name = name, markers = sort (cur_markers cur), corresponding = cur_corresponding cur\<rparr>)"

definition keep_author :: "author \<Rightarrow> bool" where
  "keep_author a = (name a \<noteq> [] \<and> \<not> is_likely_affiliation (name a))"

text \<open>The body of the loop of \<open>parse_authors_with_markers\<close>: what one token does to the
  accumulator and to the authors found so far.\<close>

definition author_step :: "ustr \<Rightarrow> accumulator \<times> author list \<Rightarrow> accumulator \<times> author list" where
  "author_step tok st =
     (case st of (cur, authors) \<Rightarrow>
        if tok = [44] then
          (if name_parts cur \<noteq> [] then
             (let a = finalize_author cur in
              (new_accumulator, if keep_author a then authors @ [a] else authors))
           else (cur, authors))
        else if tok \<in> set [[42], [8727], [8270]] then
          (cur\<lparr>cur_corresponding := True\<rparr>, authors)
        else if re_fullmatch (Cls is_az) tok then
          (cur\<lparr>cur_markers := List.insert tok (cur_markers cur)\<rparr>, authors)
        else if re_fullmatch (Plus (Cls is_09)) tok then
          (cur\<lparr>cur_markers := List.insert tok (cur_markers cur)\<rparr>, authors)
        else if contains tok superscripts then
          (cur\<lparr>cur_markers := List.insert (translate SUP_TO_DIGIT tok) (cur_markers cur)\<rparr>,
           authors)
        else (cur\<lparr>name_parts := name_parts cur @ [tok]\<rparr>, authors))"

text \<open>The loop over the tokens, and the finalization of the pending accumulator after it.\<close>

definition author_loop :: "ustr list \<Rightarrow> accumulator \<times> author list \<Rightarrow> accumulator \<times> author list" where
  "author_loop tokens st = fold author_step tokens st"

definition author_finish :: "accumulator \<times> author list \<Rightarrow> author list" where
  "author_finish st =
     (case st of (cur, authors) \<Rightarrow>
        if name_parts cur \<noteq> [] then
          (let a = finalize_author cur in
           if keep_author a then authors @ [a] else authors)
        else authors)"

definition parse_author_tokens :: "ustr list \<Rightarrow> author list" where
  "parse_author_tokens tokens = author_finish (author_loop tokens (new_accumulator, []))"

definition parse_authors_with_markers :: "line list \<Rightarrow> author list" where
  "parse_authors_with_markers author_lines =
     parse_author_tokens (extract_tokens_from_lines author_lines)"

text \<open>\<^verbatim>\<open>s.strip(" ,")\<close> and \<^verbatim>\<open>s.strip(", ")\<close>.\<close>

definition strip_space_comma :: "ustr \<Rightarrow> ustr" where
  "strip_space_comma s = strip_chars (\<lambda>c. c = 32 \<or> c = 44) s"

text \<open>The split of the author text at the first match of a cue pattern: the author
  part and the affiliation part, or nothing when the pattern is not found.\<close>

definition split_at_cue :: "rx \<Rightarrow> ustr \<Rightarrow> (ustr \<times> ustr) option" where
  "split_at_cue cues author_text =
     (case re_search cues author_text of
        None \<Rightarrow> None
      | Some (start, e) \<Rightarrow>
          Some (strip_space_comma (take start author_text), strip (drop start author_text)))"

definition add_aff :: "ustr \<Rightarrow> ustr \<Rightarrow> ustr" where
  "add_aff extracted_aff p =
     (if extracted_aff \<noteq> [] then strip_space_comma (extracted_aff @ str '', '' @ p) else p)"

text \<open>The loop over the comma-separated parts, with the authors and the affiliation
  text so far.\<close>

fun part_loop :: "ustr list \<Rightarrow> author list \<Rightarrow> ustr \<Rightarrow> author list \<times> ustr" where
  "part_loop [] authors extracted_aff = (authors, extracted_aff)"
| "part_loop (p0 # parts) authors extracted_aff =
     (let p = strip p0 in
      if p = [] then part_loop parts authors extracted_aff
      else if re_fullmatch (Plus digit) p then part_loop parts authors extracted_aff
      else if is_likely_affiliation p then part_loop parts authors (add_aff extracted_aff p)
      else
        (let corresponding = list_ex is_asterisk p;
             p = strip (filter (\<lambda>c. \<not> is_asterisk c) p);
             p = fix_merged_text p
         in if is_likely_affiliation p then part_loop parts authors (add_aff extracted_aff p)
            else if p \<noteq> [] then
              part_loop parts
                (authors @ [\<lparr>name = p, markers = [], corresponding = corresponding\<rparr>])
                extracted_aff
            else part_loop parts authors extracted_aff))"

definition parse_authors_without_markers :: "ustr \<Rightarrow> author list \<times> ustr" where
  "parse_authors_without_markers author_text0 =
     (let author_text = strip author_text0 in
      if author_text = [] then ([], [])
      else
        (let (author_text, extracted_aff) =
               (case split_at_cue AFF_CUES author_text of
                  Some (author_part, aff) \<Rightarrow> (author_part, aff)
                | None \<Rightarrow> (author_text, []));
             (author_text, extracted_aff) =
               (if extracted_aff = [] then
                  (case split_at_cue AFF_CUES_MERGED author_text of
                     Some (author_part, aff) \<Rightarrow> (author_part, aff)
                   | None \<Rightarrow> (author_text, extracted_aff))
                else (author_text, extracted_aff));
             author_text = fix_merged_text author_text;
             parts = re_split (seqs [Star white, chr CHR '','', Star white]) author_text;
             (authors, extracted_aff) = part_loop parts [] extracted_aff
         in (authors, fix_merged_text extracted_aff)))"


section \<open>Affiliation parsing\<close>

type_synonym affiliations = "(ustr \<times> ustr) list"

definition is_stop_line :: "ustr \<Rightarrow> bool" where
  "is_stop_line t = (re_found RE_ARTINFO t \<or> re_found RE_ABS_HDR t \<or> re_found RE_STOP_ANY t)"

text \<open>\<^verbatim>\<open>^\s*([a-z])\s+(.*)$\<close> and \<^verbatim>\<open>^\s*([a-z])([A-Z]. *)$\<close>: in the second pattern the
  capital letter is followed by one character, then by spaces only, up to the end.\<close>

definition RE_AFF_KEY :: rx where
  "RE_AFF_KEY = seqs [Bol, Star white, Grp 1 (Cls is_az), Plus white, Grp 2 (Star dot), Eol]"

definition RE_AFF_KEY_GLUED :: rx where
  "RE_AFF_KEY_GLUED = seqs [Bol, Star white, Grp 1 (Cls is_az),
     Grp 2 (seqs [Cls is_AZ, dot, Star (chr CHR '' '')]), Eol]"

text \<open>The loop of \<open>parse_affiliations_with_markers\<close>, with the dictionary and the last
  key; a stop line ends it.\<close>

fun aff_loop :: "line list \<Rightarrow> affiliations \<Rightarrow> ustr option \<Rightarrow> affiliations" where
  "aff_loop [] affs last_key = affs"
| "aff_loop (li # lines) affs last_key =
     (let t = strip (li_text li) in
      if t = [] then aff_loop lines affs last_key
      else if is_stop_line t then affs
      else
        (case re_match RE_AFF_KEY t of
           Some m \<Rightarrow>
             aff_loop lines
               (AList.update (group m 1) (fix_merged_text (strip (group m 2))) affs)
               (Some (group m 1))
         | None \<Rightarrow>
             (case re_match RE_AFF_KEY_GLUED t of
                Some m2 \<Rightarrow>
                  aff_loop lines
                    (AList.update (group m2 1) (fix_merged_text (strip (group m2 2))) affs)
                    (Some (group m2 1))
              | None \<Rightarrow>
                  (case last_key of
                     Some k \<Rightarrow>
                       (if k \<noteq> [] then
                          (case map_of affs k of
                             Some v \<Rightarrow>
                               aff_loop lines
                                 (AList.update k (strip (v @ [32] @ fix_merged_text t)) affs)
                                 last_key
                           | None \<Rightarrow> aff_loop lines affs last_key)
                        else aff_loop lines affs last_key)
                   | None \<Rightarrow> aff_loop lines affs last_key))))"

definition parse_affiliations_with_markers :: "line list \<Rightarrow> affiliations" where
  "parse_affiliations_with_markers aff_lines = aff_loop aff_lines [] None"

definition parse_affiliations_without_markers :: "ustr \<Rightarrow> affiliations" where
  "parse_affiliations_without_markers aff_text0 =
     (let aff_text = strip aff_text0 in
      if aff_text = [] then []
      else if re_found RE_ARTINFO aff_text \<or> re_found RE_ABS_HDR aff_text then []
      else
        (let aff_text = strip (collapse_ws aff_text);
             aff_text = fix_merged_text aff_text
         in if aff_text \<noteq> [] then [(str ''all'', aff_text)] else []))"

section \<open>The front matter of page 1\<close>

record front_matter =
  fm_title :: ustr
  fm_authors :: "author list"
  fm_affiliations :: affiliations

definition empty_front_matter :: front_matter where
  "empty_front_matter = \<lparr>fm_title = [], fm_authors = [], fm_affiliations = []\<rparr>"

text \<open>\<^verbatim>\<open>find_y(lines, RE_ARTINFO) or find_y(lines, RE_ABS_HDR)\<close>, then 62% of the page
  height when that is \<^verbatim>\<open>None\<close>. The \<^verbatim>\<open>or\<close> of Python takes its second operand when
  the first is \<^verbatim>\<open>None\<close> or zero.\<close>

definition absinfo_y_of :: "pyfloat \<Rightarrow> line list \<Rightarrow> pyfloat" where
  "absinfo_y_of H lines =
     (let found =
        (case find_y lines RE_ARTINFO of
           Some y \<Rightarrow> if y \<noteq> 0 then Some y else find_y lines RE_ABS_HDR
         | None \<Rightarrow> find_y lines RE_ABS_HDR)
      in case found of None \<Rightarrow> py_mul H (binary64 0.62) | Some y \<Rightarrow> y)"

definition content_end_y_of :: "pyfloat \<Rightarrow> line list \<Rightarrow> pyfloat" where
  "content_end_y_of H lines = min (absinfo_y_of H lines) (py_mul H (binary64 0.45))"

definition top_lines :: "pyfloat \<Rightarrow> line list \<Rightarrow> line list" where
  "top_lines H lines =
     filter (\<lambda>li. find_header_end_y lines H \<le> li_y li \<and> li_y li < content_end_y_of H lines
                 \<and> \<not> is_header_banner (li_text li)) lines"

definition title_candidates_of :: "line list \<Rightarrow> line list" where
  "title_candidates_of tops =
     (case tops of
        [] \<Rightarrow> []
      | t # ts \<Rightarrow>
          (let max_font = max_from (li_max_size t) (map li_max_size ts) in
           sort_key li_y (filter (\<lambda>li. li_max_size li \<ge> py_sub max_font 1.5
                                      \<and> \<not> is_header_banner (li_text li)) tops)))"

text \<open>The loop that gathers the title lines, with the \<open>y\<close> of the last line taken.\<close>

fun title_loop :: "line list \<Rightarrow> pyfloat option \<Rightarrow> line list" where
  "title_loop [] last_y = []"
| "title_loop (li # lis) last_y =
     (if is_header_banner (li_text li) then title_loop lis last_y
      else if (case last_y of None \<Rightarrow> True | Some y \<Rightarrow> \<bar>py_sub (li_y li) y\<bar> \<le> 20)
      then li # title_loop lis (Some (li_y li))
      else [])"

definition title_lines_of :: "line list \<Rightarrow> line list" where
  "title_lines_of tops = title_loop (title_candidates_of tops) None"

definition title_of :: "line list \<Rightarrow> ustr" where
  "title_of title_lines = fix_merged_text (strip (join [32] (map li_text title_lines)))"

definition zone_of :: "pyfloat \<Rightarrow> pyfloat \<Rightarrow> line list \<Rightarrow> line list" where
  "zone_of title_bottom_y absinfo_y lines =
     filter (\<lambda>li. py_add title_bottom_y 5 < li_y li \<and> li_y li < absinfo_y
                 \<and> \<not> is_header_banner (li_text li)) lines"

text \<open>\<^verbatim>\<open>^\s*[a-z]\s+[A-Z]\<close> and \<^verbatim>\<open>^\s*[a-z][A-Z]\<close>.\<close>

definition RE_MARKER_SPACED :: rx where
  "RE_MARKER_SPACED = seqs [Bol, Star white, Cls is_az, Plus white, Cls is_AZ]"

definition RE_MARKER_GLUED :: rx where
  "RE_MARKER_GLUED = seqs [Bol, Star white, Cls is_az, Cls is_AZ]"

definition is_marker_line :: "ustr \<Rightarrow> bool" where
  "is_marker_line t = (re_match RE_MARKER_SPACED t \<noteq> None \<or> re_match RE_MARKER_GLUED t \<noteq> None)"

text \<open>The scan of the zone for the line where the affiliations start: the flag
  \<open>has_markers\<close> and the index \<open>aff_start\<close>, from index \<open>i\<close> on.\<close>

fun find_aff_start :: "nat \<Rightarrow> line list \<Rightarrow> bool \<times> nat option" where
  "find_aff_start i [] = (False, None)"
| "find_aff_start i (li # zone) =
     (let t = strip (li_text li) in
      if is_stop_line t then (False, Some i)
      else if is_marker_line t then (True, Some i)
      else if re_found AFF_CUES t then (False, Some i)
      else find_aff_start (Suc i) zone)"

definition split_zone :: "line list \<Rightarrow> bool \<times> line list \<times> line list" where
  "split_zone zone =
     (case find_aff_start 0 zone of
        (has_markers, None) \<Rightarrow> (has_markers, take 2 zone, drop 2 zone)
      | (has_markers, Some aff_start) \<Rightarrow> (has_markers, take aff_start zone, drop aff_start zone))"

text \<open>The two resolvers on the author block and the affiliation block.\<close>

definition resolve_blocks :: "bool \<Rightarrow> line list \<Rightarrow> line list \<Rightarrow> author list \<times> affiliations" where
  "resolve_blocks has_markers author_lines aff_lines =
     (let author_text = strip (join [32] (map li_text author_lines)) in
      if has_markers then
        (parse_authors_with_markers author_lines, parse_affiliations_with_markers aff_lines)
      else
        (case parse_authors_without_markers author_text of (authors, extra_aff) \<Rightarrow>
           (let aff_text = strip (join [32] (map li_text aff_lines));
                combined_aff = (if extra_aff \<noteq> [] \<or> aff_text \<noteq> []
                                then strip (extra_aff @ [32] @ aff_text) else [])
            in (authors, parse_affiliations_without_markers combined_aff))))"

definition resolve_zone :: "line list \<Rightarrow> author list \<times> affiliations" where
  "resolve_zone zone =
     (case split_zone zone of (has_markers, author_lines, aff_lines) \<Rightarrow>
        resolve_blocks has_markers author_lines aff_lines)"

text \<open>The body of \<open>parse_front_matter_page1\<close> once the lines are clustered.\<close>

definition front_matter_of_lines :: "pyfloat \<Rightarrow> line list \<Rightarrow> front_matter" where
  "front_matter_of_lines H lines =
     (let header_end_y = find_header_end_y lines H;
          absinfo_y = absinfo_y_of H lines;
          tops = top_lines H lines
      in if tops = [] then empty_front_matter
         else
           (let title_lines = title_lines_of tops;
                title_bottom_y = (if title_lines \<noteq> [] then li_y (last title_lines)
                                  else header_end_y);
                zone = zone_of title_bottom_y absinfo_y lines;
                (authors, affiliations) = resolve_zone zone
            in \<lparr>fm_title = title_of title_lines, fm_authors = authors,
                fm_affiliations = affiliations\<rparr>))"

text \<open>\<open>parse_front_matter_page1\<close> from the height of the page and its words; opening the
  file and reading the words are outside the model.\<close>

definition parse_front_matter_page1 :: "pyfloat \<Rightarrow> word list \<Rightarrow> front_matter" where
  "parse_front_matter_page1 H words =
     (if words = [] then empty_front_matter
      else front_matter_of_lines H (cluster_lines 3 3 words))"

section \<open>Keywords and abstract\<close>

text \<open>The index of the first element that satisfies \<open>P\<close>.\<close>

fun first_index :: "('a \<Rightarrow> bool) \<Rightarrow> 'a list \<Rightarrow> nat option" where
  "first_index P [] = None"
| "first_index P (x # xs) =
     (if P x then Some 0 else map_option Suc (first_index P xs))"

text \<open>\<^verbatim>\<open>(?i)\bKeywords?\b\s*:?\s*(.*)$\<close> and \<^verbatim>\<open>(?i)\bAbstract\b\s*:?\s*(.*)$\<close>.\<close>

definition RE_KW_FIRST :: rx where
  "RE_KW_FIRST = seqs [Wb, ilit ''Keyword'', Opt (ichr CHR ''s''), Wb, Star white,
     Opt (chr CHR '':''), Star white, Grp 1 (Star dot), Eol]"

definition RE_ABS_FIRST :: rx where
  "RE_ABS_FIRST = seqs [Wb, ilit ''Abstract'', Wb, Star white,
     Opt (chr CHR '':''), Star white, Grp 1 (Star dot), Eol]"

text \<open>The text after the header word on the first line of a span, when there is some.\<close>

definition first_parts :: "rx \<Rightarrow> ustr \<Rightarrow> ustr list" where
  "first_parts r first_line =
     (case re_search r first_line of
        None \<Rightarrow> []
      | Some (start, m) \<Rightarrow> if group m 1 \<noteq> [] then [strip (group m 1)] else [])"

text \<open>The lines after the first, up to the first line where \<open>stop\<close> holds.\<close>

definition more_parts :: "(ustr \<Rightarrow> bool) \<Rightarrow> line list \<Rightarrow> ustr list" where
  "more_parts stop lines =
     takeWhile (\<lambda>t. \<not> stop t) (map (\<lambda>li. strip (li_text li)) lines)"

definition span_text :: "rx \<Rightarrow> (ustr \<Rightarrow> bool) \<Rightarrow> line list \<Rightarrow> ustr" where
  "span_text r stop span_lines =
     (case span_lines of
        [] \<Rightarrow> []
      | first # others \<Rightarrow>
          (let parts = first_parts r (li_text first) @ more_parts stop others in
           if parts \<noteq> [] then strip (collapse_ws (join [32] parts)) else []))"

text \<open>The spans start at an index of the list and end after it, so neither is empty
  and its first line exists.\<close>

definition extract_kw_abs_from_lines :: "line list \<Rightarrow> ustr \<times> ustr" where
  "extract_kw_abs_from_lines lines =
     (let clean_lines = filter (\<lambda>li. \<not> is_header_banner (li_text li)) lines;
          kw_idx = first_index (\<lambda>li. re_found RE_KEYWORDS_HDR (li_text li)) clean_lines;
          abs_idx = first_index (\<lambda>li. re_found RE_ABS_HDR (li_text li)) clean_lines;
          intro_idx = first_index (\<lambda>li. re_found RE_INTRO (li_text li)) clean_lines;
          after = (\<lambda>idx k. case idx of None \<Rightarrow> False | Some i \<Rightarrow> i > k);
          keywords_text =
            (case kw_idx of
               None \<Rightarrow> []
             | Some k \<Rightarrow>
                 (let end_kw = (if after abs_idx k then the abs_idx
                                else if after intro_idx k then the intro_idx
                                else length clean_lines)
                  in span_text RE_KW_FIRST
                       (\<lambda>t. re_found RE_ABS_HDR t \<or> re_found RE_INTRO t)
                       (take (end_kw - k) (drop k clean_lines))));
          abstract_text =
            (case abs_idx of
               None \<Rightarrow> []
             | Some a \<Rightarrow>
                 (let end_abs = (if after intro_idx a then the intro_idx
                                 else length clean_lines)
                  in span_text RE_ABS_FIRST (\<lambda>t. re_found RE_INTRO t)
                       (take (end_abs - a) (drop a clean_lines))))
      in (keywords_text, abstract_text))"

section \<open>Flattening\<close>

definition numeric_markers :: "ustr list \<Rightarrow> ustr" where
  "numeric_markers ms = concat (filter (\<lambda>m. re_fullmatch (Plus digit) m) ms)"

text \<open>The display text of one author, or nothing when the name is empty.\<close>

definition flatten_author :: "author \<Rightarrow> ustr list" where
  "flatten_author a =
     (let name = strip (name a) in
      if name = [] then []
      else
        (let numeric = numeric_markers (markers a);
             name = (if numeric \<noteq> [] then name @ translate DIGIT_TO_SUP numeric else name);
             name = (if corresponding a then name @ [32, 8727] else name)
         in [name]))"

definition flatten_authors :: "author list \<Rightarrow> ustr" where
  "flatten_authors authors =
     (if authors = [] then []
      else strip (join (str '', '') (concat (map flatten_author authors))))"


section \<open>Notions for the proofs\<close>

text \<open>What holds of every bucket: it has a first word, its \<open>y\<close> is the top of that word,
  and every word of it passed the test of the program against that \<open>y\<close>.\<close>

definition bucket_ok :: "pyfloat \<Rightarrow> bucket \<Rightarrow> bool" where
  "bucket_ok y_tol b =
     (b_ws b \<noteq> [] \<and> b_y b = w_top (hd (b_ws b))
        \<and> list_all (\<lambda>v. \<bar>py_sub (b_y b) (w_top v)\<bar> \<le> y_tol) (b_ws b))"

text \<open>\<^verbatim>\<open>s.rstrip()\<close>, the right half of \<open>strip\<close>.\<close>

definition rstrip :: "ustr \<Rightarrow> ustr" where
  "rstrip s = rev (dropWhile isspace (rev s))"

section \<open>The claims as the specification words them\<close>

text \<open>
  Two claims describe a computation that the program performs otherwise. The
  definitions of this section follow the words of those claims, to be compared with the
  definitions above, which follow the program. Sums, differences and products are those
  of the program's floats here too.

  The text of a line as claim C4 has it: a space between two consecutive words exactly
  when their gap exceeds \<open>x_tol\<close>, nothing between them otherwise.
\<close>

fun spec_line_text :: "pyfloat \<Rightarrow> word list \<Rightarrow> ustr" where
  "spec_line_text x_tol [] = []"
| "spec_line_text x_tol [w] = w_text w"
| "spec_line_text x_tol (w # w' # ws) =
     w_text w @ (if py_sub (w_x0 w') (w_x1 w) > x_tol then [32] else [])
       @ spec_line_text x_tol (w' # ws)"

text \<open>
  The title as claim C2 has it. The bound of the metadata region is the \<open>y\<close> of the first
  line that matches one of the two anchors, or 62% of the page height; the candidates
  are the lines strictly between the header cutoff and the bound; the title lines are the
  candidates within 1.5 of the largest font size, in \<open>y\<close> order, as long as each is within
  20 of the one before.
\<close>

definition spec_metadata_bound :: "pyfloat \<Rightarrow> line list \<Rightarrow> pyfloat" where
  "spec_metadata_bound H lines =
     (case find (\<lambda>li. re_found RE_ARTINFO (li_text li) \<or> re_found RE_ABS_HDR (li_text li)) lines of
        Some li \<Rightarrow> li_y li
      | None \<Rightarrow> py_mul H (binary64 0.62))"

definition spec_title_candidates :: "pyfloat \<Rightarrow> line list \<Rightarrow> line list" where
  "spec_title_candidates H lines =
     filter (\<lambda>li. find_header_end_y lines H < li_y li \<and> li_y li < spec_metadata_bound H lines)
            lines"

fun spec_merge :: "line list \<Rightarrow> line list" where
  "spec_merge [] = []"
| "spec_merge [l] = [l]"
| "spec_merge (l # l' # ls) =
     (if \<bar>py_sub (li_y l') (li_y l)\<bar> \<le> 20 then l # spec_merge (l' # ls) else [l])"

definition spec_title_lines :: "pyfloat \<Rightarrow> line list \<Rightarrow> line list" where
  "spec_title_lines H lines =
     (case spec_title_candidates H lines of
        [] \<Rightarrow> []
      | c # cs \<Rightarrow>
          spec_merge (sort_key li_y
            (filter (\<lambda>li. li_max_size li \<ge> py_sub (max_from (li_max_size c) (map li_max_size cs)) 1.5)
                    (c # cs))))"

section \<open>Auxiliary facts\<close>

lemma strip_Nil: "strip [] = []"
  by (simp add: strip_def strip_chars_def)

subsection \<open>White space\<close>

lemma split_ws_Nil: "split_ws [] = []"
  by simp

lemma split_ws_space: "isspace c \<Longrightarrow> split_ws (c # cs) = split_ws cs"
  by (subst split_ws.simps, subst (2) split_ws.simps) simp

lemma split_ws_nonspace:
  "\<not> isspace c \<Longrightarrow>
   split_ws (c # cs) = (c # takeWhile (\<lambda>x. \<not> isspace x) cs) # split_ws (dropWhile (\<lambda>x. \<not> isspace x) cs)"
  by (subst split_ws.simps) simp

declare split_ws.simps [simp del]

lemma split_ws_all_space: "\<forall>x\<in>set s. isspace x \<Longrightarrow> split_ws s = []"
  by (induction s) (simp_all add: split_ws_Nil split_ws_space)

lemma split_ws_empty_iff: "split_ws s = [] \<longleftrightarrow> (\<forall>x\<in>set s. isspace x)"
proof (induction s)
  case Nil
  then show ?case by (simp add: split_ws_Nil)
next
  case (Cons c cs)
  then show ?case by (cases "isspace c") (simp_all add: split_ws_space split_ws_nonspace)
qed

lemma split_ws_dropWhile: "split_ws (dropWhile isspace s) = split_ws s"
  by (induction s) (simp_all add: split_ws_space)

lemma split_ws_append_space:
  "isspace c \<Longrightarrow> split_ws (a @ c # b) = split_ws a @ split_ws b"
proof (induction "length a" arbitrary: a rule: less_induct)
  case less
  show ?case
  proof (cases a)
    case Nil
    with less.prems show ?thesis by (simp add: split_ws_space split_ws_Nil)
  next
    case (Cons x xs)
    show ?thesis
    proof (cases "isspace x")
      case True
      with Cons less show ?thesis by (simp add: split_ws_space)
    next
      case False
      show ?thesis
      proof (cases "\<forall>y\<in>set xs. \<not> isspace y")
        case True
        then have tw: "takeWhile (\<lambda>x. \<not> isspace x) (xs @ c # b) = xs"
          and dw: "dropWhile (\<lambda>x. \<not> isspace x) (xs @ c # b) = c # b"
          and tw': "takeWhile (\<lambda>x. \<not> isspace x) xs = xs"
          and dw': "dropWhile (\<lambda>x. \<not> isspace x) xs = []"
          using less.prems by (simp_all add: takeWhile_append dropWhile_append)
        have "split_ws (a @ c # b) = split_ws (x # (xs @ c # b))"
          by (simp add: Cons)
        also have "\<dots> = (x # takeWhile (\<lambda>x. \<not> isspace x) (xs @ c # b))
            # split_ws (dropWhile (\<lambda>x. \<not> isspace x) (xs @ c # b))"
          by (rule split_ws_nonspace [OF False])
        also have "\<dots> = (x # xs) # split_ws (c # b)"
          by (simp only: tw dw)
        also have "\<dots> = (x # xs) # split_ws b"
          by (simp only: split_ws_space [OF less.prems])
        finally have "split_ws (a @ c # b) = (x # xs) # split_ws b" .
        moreover have "split_ws a = [x # xs]"
          unfolding Cons using split_ws_nonspace [OF False, of xs] by (simp only: tw' dw' split_ws_Nil)
        ultimately show ?thesis by simp
      next
        case nall: False
        have "length (dropWhile (\<lambda>x. \<not> isspace x) xs) < length a"
          using Cons length_dropWhile_le [of "\<lambda>x. \<not> isspace x" xs] by simp
        from less.hyps [OF this less.prems]
        have IH: "split_ws (dropWhile (\<lambda>x. \<not> isspace x) xs @ c # b)
            = split_ws (dropWhile (\<lambda>x. \<not> isspace x) xs) @ split_ws b" .
        have tw: "takeWhile (\<lambda>x. \<not> isspace x) (xs @ c # b) = takeWhile (\<lambda>x. \<not> isspace x) xs"
          and dw: "dropWhile (\<lambda>x. \<not> isspace x) (xs @ c # b)
            = dropWhile (\<lambda>x. \<not> isspace x) xs @ c # b"
          using nall by (auto simp: takeWhile_append dropWhile_append)
        have "split_ws (a @ c # b) = split_ws (x # (xs @ c # b))"
          by (simp add: Cons)
        also have "\<dots> = (x # takeWhile (\<lambda>x. \<not> isspace x) (xs @ c # b))
            # split_ws (dropWhile (\<lambda>x. \<not> isspace x) (xs @ c # b))"
          by (rule split_ws_nonspace [OF False])
        also have "\<dots> = (x # takeWhile (\<lambda>x. \<not> isspace x) xs)
            # split_ws (dropWhile (\<lambda>x. \<not> isspace x) xs) @ split_ws b"
          by (simp only: tw dw IH)
        also have "\<dots> = split_ws (x # xs) @ split_ws b"
          by (simp only: split_ws_nonspace [OF False] append_Cons)
        finally show ?thesis by (simp only: Cons)
      qed
    qed
  qed
qed

lemma split_ws_join: "split_ws (join [32] xs) = concat (map split_ws xs)"
proof (induction "[32::int]" xs rule: join.induct)
  case 1
  then show ?case by (simp add: split_ws_Nil)
next
  case (2 x)
  then show ?case by simp
next
  case (3 x y ys)
  have "isspace 32" by (simp add: isspace_def in_ranges_def)
  from split_ws_append_space [OF this, of x "join [32] (y # ys)"] 3 show ?case by simp
qed

lemma split_ws_build_parts:
  "concat (map split_ws (build_parts x_tol ws)) = concat (map (\<lambda>w. split_ws (w_text w)) ws)"
proof (induction x_tol ws rule: build_parts.induct)
  case (3 x_tol w w' ws)
  have "split_ws [32] = []" by (rule split_ws_all_space) (simp add: isspace_def in_ranges_def)
  with 3 show ?case by simp
qed simp_all

lemma strip_rstrip: "strip s = rstrip (dropWhile isspace s)"
  by (simp add: strip_def strip_chars_def rstrip_def)

lemma rstrip_append:
  "rstrip (a @ b) = (if \<forall>x\<in>set b. isspace x then rstrip a else a @ rstrip b)"
  by (simp add: rstrip_def dropWhile_append)

lemma rstrip_nonspace: "\<forall>x\<in>set a. \<not> isspace x \<Longrightarrow> rstrip a = a"
  by (cases a rule: rev_cases) (simp_all add: rstrip_def)

lemma rstrip_Cons_nonspace: "\<not> isspace c \<Longrightarrow> rstrip (c # cs) = c # rstrip cs"
  using rstrip_append [of "[c]" cs] by (simp add: rstrip_nonspace) (simp add: rstrip_def)

lemma collapse_nonspace:
  "\<forall>x\<in>set a. \<not> isspace x \<Longrightarrow> a \<noteq> [] \<Longrightarrow> collapse_from b (a @ r) = a @ collapse_from False r"
proof (induction a arbitrary: b)
  case Nil
  then show ?case by simp
next
  case (Cons x xs)
  then show ?case by (cases xs) simp_all
qed

lemma collapse_True_spaces:
  "\<forall>x\<in>set sp. isspace x \<Longrightarrow> collapse_from True (sp @ r) = collapse_from True r"
  by (induction sp) simp_all

lemma collapse_False_spaces:
  "\<forall>x\<in>set sp. isspace x \<Longrightarrow> sp \<noteq> [] \<Longrightarrow> collapse_from False (sp @ r) = 32 # collapse_from True r"
  by (cases sp) (simp_all add: collapse_True_spaces)

lemma collapse_flag: "r = [] \<or> \<not> isspace (hd r) \<Longrightarrow> collapse_from True r = collapse_from False r"
  by (cases r) auto

lemma collapse_strip: "collapse_ws (strip s) = join [32] (split_ws s)"
proof (induction "length s" arbitrary: s rule: less_induct)
  case less
  show ?case
  proof (cases "dropWhile isspace s")
    case Nil
    then have all: "\<forall>x\<in>set s. isspace x" by simp
    have "strip s = []" by (simp add: strip_def strip_chars_def Nil)
    with all show ?thesis by (simp add: collapse_ws_def split_ws_all_space)
  next
    case (Cons c cs)
    then have c: "\<not> isspace c" by (metis hd_dropWhile list.sel(1) list.distinct(1))
    define tok where "tok = c # takeWhile (\<lambda>x. \<not> isspace x) cs"
    define r where "r = dropWhile (\<lambda>x. \<not> isspace x) cs"
    have t: "dropWhile isspace s = tok @ r" using Cons by (simp add: tok_def r_def)
    have tok: "\<forall>x\<in>set tok. \<not> isspace x" using c by (auto simp: tok_def dest: set_takeWhileD)
    have tokne: "tok \<noteq> []" by (simp add: tok_def)
    have split: "split_ws s = tok # split_ws r"
      using split_ws_dropWhile [of s] Cons c by (simp add: split_ws_nonspace tok_def r_def)
    have "length (dropWhile isspace s) \<le> length s" by (rule length_dropWhile_le)
    then have "length cs < length s" using Cons by simp
    moreover have "length r \<le> length cs" unfolding r_def by (rule length_dropWhile_le)
    ultimately have len: "length r < length s" by simp
    have rhd: "r = [] \<or> isspace (hd r)"
      using hd_dropWhile [of "\<lambda>x. \<not> isspace x" cs] unfolding r_def by blast
    have strip_s: "collapse_ws (strip s) = collapse_from False (rstrip (tok @ r))"
      by (simp only: collapse_ws_def strip_rstrip t)
    have ctok: "collapse_from False (tok @ u) = tok @ collapse_from False u" for u
      by (rule collapse_nonspace [OF tok tokne])
    show ?thesis
    proof (cases "\<forall>x\<in>set r. isspace x")
      case True
      have 1: "rstrip (tok @ r) = rstrip tok"
        unfolding rstrip_append by (rule if_P [OF True])
      have 2: "rstrip tok = tok" using tok by (rule rstrip_nonspace)
      have 3: "collapse_from False tok = tok" using ctok [of "[]"] by simp
      have 4: "split_ws r = []" using True by (rule split_ws_all_space)
      show ?thesis by (simp only: strip_s 1 2 3 split 4 join.simps)
    next
      case False
      define sp where "sp = takeWhile isspace r"
      define r' where "r' = dropWhile isspace r"
      have r: "r = sp @ r'" by (simp add: sp_def r'_def)
      have r'ne: "r' \<noteq> []" using False by (simp add: r'_def)
      then have hd': "\<not> isspace (hd r')" unfolding r'_def by (rule hd_dropWhile)
      obtain c' cs' where r'eq: "r' = c' # cs'" using r'ne by (cases r') auto
      with hd' have c': "\<not> isspace c'" by simp
      have r'nall: "\<not> (\<forall>x\<in>set r'. isspace x)" using c' by (auto simp: r'eq)
      have sp: "\<forall>x\<in>set sp. isspace x" by (auto simp: sp_def dest: set_takeWhileD)
      have "r \<noteq> []" using False by auto
      with rhd have "isspace (hd r)" by blast
      with \<open>r \<noteq> []\<close> have spne: "sp \<noteq> []" by (cases r) (auto simp: sp_def)
      have "rstrip (sp @ r') = sp @ rstrip r'"
        unfolding rstrip_append by (rule if_not_P [OF r'nall])
      then have rr: "rstrip r = sp @ rstrip r'" by (simp only: r)
      have "rstrip (tok @ r) = tok @ rstrip r"
        unfolding rstrip_append by (rule if_not_P [OF False])
      then have eq: "rstrip (tok @ r) = tok @ sp @ rstrip r'" by (simp only: rr)
      have "rstrip r' = c' # rstrip cs'"
        unfolding r'eq by (rule rstrip_Cons_nonspace [OF c'])
      then have flag: "collapse_from True (rstrip r') = collapse_from False (rstrip r')"
        using c' by simp
      have IH: "collapse_from False (rstrip r') = join [32] (split_ws r)"
        using less.hyps [OF len] by (simp add: collapse_ws_def strip_rstrip r'_def)
      have "collapse_ws (strip s) = tok @ collapse_from False (sp @ rstrip r')"
        by (simp only: strip_s eq ctok)
      also have "\<dots> = tok @ 32 # collapse_from True (rstrip r')"
        by (simp only: collapse_False_spaces [OF sp spne])
      also have "\<dots> = tok @ 32 # join [32] (split_ws r)"
        by (simp only: flag IH)
      finally have lhs: "collapse_ws (strip s) = tok @ 32 # join [32] (split_ws r)" .
      have "split_ws r \<noteq> []" using False by (simp add: split_ws_empty_iff)
      then obtain u us where "split_ws r = u # us" by (cases "split_ws r") auto
      then have "join [32] (tok # split_ws r) = tok @ 32 # join [32] (split_ws r)" by simp
      with lhs split show ?thesis by simp
    qed
  qed
qed


subsection \<open>The clusterer\<close>

lemma py_sub_self: "py_sub x x = 0"
  by (simp add: py_sub_def binary64_def)

lemma add_word_ok:
  assumes "0 \<le> y_tol" and "list_all (bucket_ok y_tol) bs"
  shows "list_all (bucket_ok y_tol) (add_word y_tol v bs)"
  using assms
proof (induction bs)
  case Nil
  then show ?case by (simp add: bucket_ok_def py_sub_self)
next
  case (Cons b bs)
  then show ?case by (auto simp: bucket_ok_def)
qed

lemma foldl_add_word_ok:
  assumes "0 \<le> y_tol" and "list_all (bucket_ok y_tol) bs"
  shows "list_all (bucket_ok y_tol) (foldl (\<lambda>bs w. add_word y_tol w bs) bs words)"
  using assms(2)
proof (induction words arbitrary: bs)
  case Nil
  then show ?case by simp
next
  case (Cons v words)
  from Cons.IH [OF add_word_ok [OF assms(1) Cons.prems, of v]]
  show ?case by simp
qed

lemma assign_buckets_ok:
  assumes "0 \<le> y_tol" and "b \<in> set (assign_buckets y_tol words)"
  shows "bucket_ok y_tol b"
  using foldl_add_word_ok [OF assms(1), of "[]" words] assms(2)
  by (simp add: assign_buckets_def list_all_iff)

text \<open>Every line comes from a bucket: it has the \<open>y\<close> of the bucket and the text of its
  words in \<open>x0\<close> order.\<close>

lemma bucket_line_of:
  assumes "li \<in> set (bucket_line x_tol b)"
  shows "li_y li = b_y b \<and> li_text li = line_text x_tol (sort_key w_x0 (b_ws b))"
proof (cases "sort_key w_x0 (b_ws b)")
  case Nil
  with assms show ?thesis
    by (simp only: bucket_line_def Let_def list.case if_cancel list.set empty_iff)
next
  case (Cons w ws')
  from assms have "li \<in> set (if line_text x_tol (w # ws') \<noteq> []
      then [\<lparr>li_y = b_y b, li_text = line_text x_tol (w # ws'),
             li_max_size = max_from (size_or_0 w) (map size_or_0 ws')\<rparr>] else [])"
    by (simp only: bucket_line_def Let_def Cons list.case)
  then show ?thesis
    by (cases "line_text x_tol (w # ws') = []") (simp_all add: Cons)
qed

lemma cluster_lines_bucket:
  assumes "li \<in> set (cluster_lines y_tol x_tol words)"
  shows "\<exists>b\<in>set (assign_buckets y_tol words).
           li_y li = b_y b \<and> li_text li = line_text x_tol (sort_key w_x0 (b_ws b))"
proof -
  from assms have "\<exists>b\<in>set (assign_buckets y_tol words). li \<in> set (bucket_line x_tol b)"
    by (simp add: cluster_lines_def)
  then obtain b where b: "b \<in> set (assign_buckets y_tol words)"
    and li: "li \<in> set (bucket_line x_tol b)"
    by blast
  from bucket_line_of [OF li] b show ?thesis by blast
qed

lemma split_ws_clean:
  assumes "t \<noteq> []" and "\<forall>c\<in>set t. \<not> isspace c"
  shows "split_ws t = [t]"
proof -
  obtain c cs where t: "t = c # cs" using assms(1) by (cases t) auto
  with assms(2) have c: "\<not> isspace c" and cs: "\<forall>x\<in>set cs. \<not> isspace x" by simp_all
  from cs have "takeWhile (\<lambda>x. \<not> isspace x) cs = cs" and "dropWhile (\<lambda>x. \<not> isspace x) cs = []"
    by simp_all
  with split_ws_nonspace [OF c, of cs] show ?thesis by (simp add: t split_ws_Nil)
qed

lemma line_text_tokens:
  "line_text x_tol ws = join [32] (concat (map (\<lambda>w. split_ws (w_text w)) ws))"
  by (simp add: line_text_def collapse_strip split_ws_join split_ws_build_parts)

subsection \<open>The zone locator and the flattening\<close>

lemma find_y_find: "find_y lines r = map_option li_y (find (\<lambda>li. re_found r (li_text li)) lines)"
  by (induction lines) simp_all

lemma title_loop_merge:
  "\<forall>li\<in>set xs. \<not> is_header_banner (li_text li) \<Longrightarrow>
   x # title_loop xs (Some (li_y x)) = spec_merge (x # xs)"
  by (induction xs arbitrary: x) simp_all

lemma title_loop_None:
  "\<forall>li\<in>set xs. \<not> is_header_banner (li_text li) \<Longrightarrow> title_loop xs None = spec_merge xs"
  by (cases xs) (simp_all add: title_loop_merge)

lemma max_from_Max: "max_from x xs = Max (set (x # xs))"
  by (simp only: max_from_def Max.set_eq_fold)

lemma top_lines_no_banner: "li \<in> set (top_lines H lines) \<Longrightarrow> \<not> is_header_banner (li_text li)"
  by (simp add: top_lines_def)

lemma title_candidates_filter:
  assumes "\<forall>li\<in>set tops. \<not> is_header_banner (li_text li)"
  shows "title_candidates_of tops
    = sort_key li_y
        (filter (\<lambda>li. py_sub (Max (set (map li_max_size tops))) 1.5 \<le> li_max_size li) tops)"
proof (cases tops)
  case Nil
  then show ?thesis by (simp add: title_candidates_of_def)
next
  case (Cons t ts)
  have "filter (\<lambda>li. li_max_size li \<ge> py_sub (Max (set (map li_max_size tops))) 1.5
                \<and> \<not> is_header_banner (li_text li)) tops
      = filter (\<lambda>li. py_sub (Max (set (map li_max_size tops))) 1.5 \<le> li_max_size li) tops"
    using assms by (intro filter_cong) auto
  then show ?thesis by (simp add: title_candidates_of_def Cons max_from_Max)
qed

lemma title_lines_merge:
  assumes "\<forall>li\<in>set tops. \<not> is_header_banner (li_text li)"
  shows "title_lines_of tops
    = spec_merge (sort_key li_y
        (filter (\<lambda>li. py_sub (Max (set (map li_max_size tops))) 1.5 \<le> li_max_size li) tops))"
proof -
  have "\<forall>li\<in>set (title_candidates_of tops). \<not> is_header_banner (li_text li)"
    using assms by (simp add: title_candidates_filter)
  then show ?thesis
    by (simp add: title_lines_of_def title_loop_None) (simp add: title_candidates_filter [OF assms])
qed

lemma absinfo_y_anchor:
  assumes "\<forall>li. find (\<lambda>li. re_found RE_ARTINFO (li_text li)) lines = Some li \<longrightarrow> li_y li \<noteq> 0"
  shows "absinfo_y_of H lines =
     (case find (\<lambda>li. re_found RE_ARTINFO (li_text li)) lines of
        Some li \<Rightarrow> li_y li
      | None \<Rightarrow> (case find (\<lambda>li. re_found RE_ABS_HDR (li_text li)) lines of
                   Some li \<Rightarrow> li_y li
                 | None \<Rightarrow> py_mul H (binary64 0.62)))"
  using assms by (auto simp: absinfo_y_of_def find_y_find split: option.splits)

lemma fm_title_front_matter:
  "top_lines H lines \<noteq> [] \<Longrightarrow>
   fm_title (front_matter_of_lines H lines)
   = fix_merged_text (strip (join [32] (map li_text (title_lines_of (top_lines H lines)))))"
  by (simp add: front_matter_of_lines_def Let_def split_beta title_of_def)

lemma find_header_end_y_cutoff:
  "find_header_end_y lines H =
     (let ys = map li_y (filter (\<lambda>li. is_header_banner (li_text li))
                 (takeWhile (\<lambda>li. li_y li \<le> py_mul H (binary64 0.35)) lines))
      in if ys = [] then py_mul H (binary64 0.10) else py_add (Max (set ys)) 5)"
proof -
  define ys where "ys = find_header_end_y_banners lines H"
  have eq: "map li_y (filter (\<lambda>li. is_header_banner (li_text li))
      (takeWhile (\<lambda>li. li_y li \<le> py_mul H (binary64 0.35)) lines)) = ys"
    by (simp add: ys_def find_header_end_y_banners_def not_less)
  have "find_header_end_y lines H
      = (if ys = [] then py_mul H (binary64 0.10) else py_add (Max (set ys)) 5)"
    by (cases ys) (simp_all add: find_header_end_y_def ys_def [symmetric] max_from_Max)
  then show ?thesis unfolding Let_def eq .
qed

lemma top_lines_filter:
  "top_lines H lines = filter (\<lambda>li. find_header_end_y lines H \<le> li_y li
       \<and> li_y li < absinfo_y_of H lines \<and> li_y li < py_mul H (binary64 0.45)
       \<and> \<not> is_header_banner (li_text li)) lines"
  by (simp add: top_lines_def content_end_y_of_def)

lemma find_aff_start_None:
  "\<forall>li\<in>set zone. \<not> is_stop_line (strip (li_text li)) \<and> \<not> is_marker_line (strip (li_text li))
      \<and> \<not> re_found AFF_CUES (strip (li_text li)) \<Longrightarrow>
   find_aff_start i zone = (False, None)"
  by (induction zone arbitrary: i) (simp_all add: Let_def)

lemma fullmatch_az: "re_fullmatch (Cls is_az) m \<Longrightarrow> \<exists>c. m = [c] \<and> is_az c"
  by (cases m) (auto simp: re_fullmatch_def split: if_splits)

lemma az_not_decimal: "is_az c \<Longrightarrow> \<not> isdecimal c"
  by (simp add: is_az_def isdecimal_def in_ranges_def)

lemma fullmatch_digits_single: "re_fullmatch (Plus digit) [c] \<Longrightarrow> isdecimal c"
  by (auto simp: re_fullmatch_def Plus_def digit_def split: if_splits)

lemma letter_not_numeric: "re_fullmatch (Cls is_az) m \<Longrightarrow> \<not> re_fullmatch (Plus digit) m"
  using fullmatch_az [of m] az_not_decimal fullmatch_digits_single by blast

lemma numeric_markers_drop_letters:
  "numeric_markers (filter (\<lambda>m. \<not> re_fullmatch (Cls is_az) m) ms) = numeric_markers ms"
proof -
  have "filter (\<lambda>m. re_fullmatch (Plus digit) m) (filter (\<lambda>m. \<not> re_fullmatch (Cls is_az) m) ms)
      = filter (\<lambda>m. re_fullmatch (Plus digit) m) ms"
    using letter_not_numeric by (auto intro: filter_cong)
  then show ?thesis by (simp add: numeric_markers_def)
qed

lemma flatten_author_drop_letters:
  "flatten_author (a\<lparr>markers := filter (\<lambda>m. \<not> re_fullmatch (Cls is_az) m) (markers a)\<rparr>)
   = flatten_author a"
  by (simp add: flatten_author_def Let_def numeric_markers_drop_letters)


section \<open>The claims\<close>

text \<open>
  C1 (as stated, refuted). On the tokens \<open>Jane Doe , 1 John Smith , 2 *\<close> the marker
  resolver does not return the two authors \<open>Jane Doe\<close> with marker \<open>1\<close> and \<open>John Smith\<close>
  with marker \<open>2\<close> and the corresponding flag. The asterisk token is U+2217. The tokens
  are those of the author line \<open>Jane Doe,1 John Smith,2*\<close>.
\<close>

theorem C1_counterexample:
  "parse_author_tokens
     [str ''Jane'', str ''Doe'', str '','', str ''1'',
      str ''John'', str ''Smith'', str '','', str ''2'', [8727]]
   \<noteq> [\<lparr>name = str ''Jane Doe'', markers = [str ''1''], corresponding = False\<rparr>,
       \<lparr>name = str ''John Smith'', markers = [str ''2''], corresponding = True\<rparr>]
   \<and> extract_tokens_from_lines
       [\<lparr>li_y = 300, li_text = str ''Jane Doe,1 John Smith,2'' @ [8727], li_max_size = 11\<rparr>]
     = [str ''Jane'', str ''Doe'', str '','', str ''1'',
        str ''John'', str ''Smith'', str '','', str ''2'', [8727]]"
  by code_simp

text \<open>
  C1 (amended). A comma closes the accumulator, so a marker read after a comma goes to
  the name that follows it. On the same tokens, when \<open>Smith\<close> has been read the
  accumulator holds the name parts \<open>John\<close>, \<open>Smith\<close> and the marker \<open>1\<close>, not yet
  corresponding, and \<open>Jane Doe\<close> has been returned without marker; the second comma
  finalizes that accumulator into the candidate \<open>John Smith\<close> with marker \<open>1\<close>. The final
  \<open>2\<close> and asterisk land in an accumulator without name parts, which gives no author. The
  result is \<open>Jane Doe\<close>, followed by the candidate \<open>John Smith\<close> when \<open>keep_author\<close> accepts
  it; whether it does is the matter of C7 and no part of this statement. With \<open>Roe\<close> in
  the place of \<open>Smith\<close>, a name that \<open>keep_author\<close> accepts, both authors are returned,
  \<open>John Roe\<close> with the marker \<open>1\<close>.
\<close>

theorem C1_markers_follow_comma:
  "author_loop
     [str ''Jane'', str ''Doe'', str '','', str ''1'', str ''John'', str ''Smith'']
     (new_accumulator, [])
   = (\<lparr>name_parts = [str ''John'', str ''Smith''], cur_markers = [str ''1''],
        cur_corresponding = False\<rparr>,
      [\<lparr>name = str ''Jane Doe'', markers = [], corresponding = False\<rparr>])
   \<and> finalize_author
       \<lparr>name_parts = [str ''John'', str ''Smith''], cur_markers = [str ''1''],
        cur_corresponding = False\<rparr>
     = \<lparr>name = str ''John Smith'', markers = [str ''1''], corresponding = False\<rparr>
   \<and> author_loop
       [str ''Jane'', str ''Doe'', str '','', str ''1'',
        str ''John'', str ''Smith'', str '','', str ''2'', [8727]]
       (new_accumulator, [])
     = (\<lparr>name_parts = [], cur_markers = [str ''2''], cur_corresponding = True\<rparr>,
        \<lparr>name = str ''Jane Doe'', markers = [], corresponding = False\<rparr>
        # filter keep_author
            [\<lparr>name = str ''John Smith'', markers = [str ''1''], corresponding = False\<rparr>])
   \<and> parse_author_tokens
       [str ''Jane'', str ''Doe'', str '','', str ''1'',
        str ''John'', str ''Smith'', str '','', str ''2'', [8727]]
     = \<lparr>name = str ''Jane Doe'', markers = [], corresponding = False\<rparr>
       # filter keep_author
           [\<lparr>name = str ''John Smith'', markers = [str ''1''], corresponding = False\<rparr>]
   \<and> parse_author_tokens
       [str ''Jane'', str ''Doe'', str '','', str ''1'',
        str ''John'', str ''Roe'', str '','', str ''2'', [8727]]
     = [\<lparr>name = str ''Jane Doe'', markers = [], corresponding = False\<rparr>,
        \<lparr>name = str ''John Roe'', markers = [str ''1''], corresponding = False\<rparr>]"
  by code_simp

text \<open>
  C2 (as stated, refuted). On a page of height 1000 with a small line at \<open>y = 200\<close> and
  a large line at \<open>y = 500\<close>, no banner and no anchor, the title of the claim is the large
  line, which lies between the header cutoff 100 and the bound 620; the program takes the
  small line, because it looks for the title above 45% of the page height only. The two
  lines are those of a page of five words, whose title comes out as \<open>Research paper\<close>.
\<close>

theorem C2_counterexample:
  "title_lines_of (top_lines 1000
     [\<lparr>li_y = 200, li_text = str ''Research paper'', li_max_size = 10\<rparr>,
      \<lparr>li_y = 500, li_text = str ''A Big Title'', li_max_size = 20\<rparr>])
   = [\<lparr>li_y = 200, li_text = str ''Research paper'', li_max_size = 10\<rparr>]
   \<and> spec_title_lines 1000
     [\<lparr>li_y = 200, li_text = str ''Research paper'', li_max_size = 10\<rparr>,
      \<lparr>li_y = 500, li_text = str ''A Big Title'', li_max_size = 20\<rparr>]
   = [\<lparr>li_y = 500, li_text = str ''A Big Title'', li_max_size = 20\<rparr>]
   \<and> cluster_lines 3 3
     [\<lparr>w_text = str ''Research'', w_x0 = 100, w_x1 = 150, w_top = 200, w_size = Some 10\<rparr>,
      \<lparr>w_text = str ''paper'', w_x0 = 155, w_x1 = 190, w_top = 200, w_size = Some 10\<rparr>,
      \<lparr>w_text = str ''A'', w_x0 = 100, w_x1 = 115, w_top = 500, w_size = Some 20\<rparr>,
      \<lparr>w_text = str ''Big'', w_x0 = 125, w_x1 = 170, w_top = 500, w_size = Some 20\<rparr>,
      \<lparr>w_text = str ''Title'', w_x0 = 180, w_x1 = 250, w_top = 500, w_size = Some 20\<rparr>]
   = [\<lparr>li_y = 200, li_text = str ''Research paper'', li_max_size = 10\<rparr>,
      \<lparr>li_y = 500, li_text = str ''A Big Title'', li_max_size = 20\<rparr>]
   \<and> fm_title (parse_front_matter_page1 1000
     [\<lparr>w_text = str ''Research'', w_x0 = 100, w_x1 = 150, w_top = 200, w_size = Some 10\<rparr>,
      \<lparr>w_text = str ''paper'', w_x0 = 155, w_x1 = 190, w_top = 200, w_size = Some 10\<rparr>,
      \<lparr>w_text = str ''A'', w_x0 = 100, w_x1 = 115, w_top = 500, w_size = Some 20\<rparr>,
      \<lparr>w_text = str ''Big'', w_x0 = 125, w_x1 = 170, w_top = 500, w_size = Some 20\<rparr>,
      \<lparr>w_text = str ''Title'', w_x0 = 180, w_x1 = 250, w_top = 500, w_size = Some 20\<rparr>])
   = str ''Research paper''"
  by code_simp

text \<open>
  C2 (amended). All sums, differences and products are those of the program's floats.
  The header cutoff is the largest \<open>y\<close> of a banner among the lines that come before the
  first line below 35% of the page height, plus 5, or 10% of the page height when there is
  no such banner. The bound of the metadata region is the \<open>y\<close> of the first line that
  matches the article-info anchor (a \<open>y\<close> other than 0), else the \<open>y\<close> of the first line
  that matches the abstract anchor, else 62% of the page height. The title candidates are
  the lines that are no banner, at or below the header cutoff, above the bound and above
  45% of the page height. The title lines are the candidates whose font size is at least
  the largest among them minus 1.5, in \<open>y\<close> order, as long as each is within 20 of the
  one before; the title is their texts joined by spaces, stripped and repaired.
\<close>

theorem C2_title_above_45_percent:
  "((\<forall>li. find (\<lambda>li. re_found RE_ARTINFO (li_text li)) lines = Some li \<longrightarrow> li_y li \<noteq> 0) \<longrightarrow>
      absinfo_y_of H lines =
        (case find (\<lambda>li. re_found RE_ARTINFO (li_text li)) lines of
           Some li \<Rightarrow> li_y li
         | None \<Rightarrow> (case find (\<lambda>li. re_found RE_ABS_HDR (li_text li)) lines of
                      Some li \<Rightarrow> li_y li
                    | None \<Rightarrow> py_mul H (binary64 0.62))))
   \<and> find_header_end_y lines H =
       (let ys = map li_y (filter (\<lambda>li. is_header_banner (li_text li))
                   (takeWhile (\<lambda>li. li_y li \<le> py_mul H (binary64 0.35)) lines))
        in if ys = [] then py_mul H (binary64 0.10) else py_add (Max (set ys)) 5)
   \<and> top_lines H lines =
       filter (\<lambda>li. find_header_end_y lines H \<le> li_y li
                   \<and> li_y li < absinfo_y_of H lines \<and> li_y li < py_mul H (binary64 0.45)
                   \<and> \<not> is_header_banner (li_text li)) lines
   \<and> title_lines_of (top_lines H lines) =
       spec_merge (sort_key li_y
         (filter (\<lambda>li. py_sub (Max (set (map li_max_size (top_lines H lines)))) 1.5
                          \<le> li_max_size li)
                 (top_lines H lines)))
   \<and> (top_lines H lines \<noteq> [] \<longrightarrow>
        fm_title (front_matter_of_lines H lines)
        = fix_merged_text (strip (join [32] (map li_text (title_lines_of (top_lines H lines))))))"
proof -
  have "\<forall>li\<in>set (top_lines H lines). \<not> is_header_banner (li_text li)"
    by (simp add: top_lines_no_banner)
  from title_lines_merge [OF this] show ?thesis
    using absinfo_y_anchor [of lines H] top_lines_filter [of H lines]
      fm_title_front_matter [of H lines] find_header_end_y_cutoff [of lines H]
    by blast
qed

text \<open>On a page of height 700 the product \<open>700 * 0.35\<close> is just below 245, so a banner
  at \<open>y = 245\<close> is not looked at for the header cutoff, which is \<open>700 * 0.10 = 70\<close>.\<close>

theorem C2_title_above_45_percent_witness:
  "py_mul 700 (binary64 0.35) < 245
   \<and> find_header_end_y
     [\<lparr>li_y = 100, li_text = str ''A Big Title'', li_max_size = 20\<rparr>,
      \<lparr>li_y = 245, li_text = str ''ScienceDirect'', li_max_size = 9\<rparr>,
      \<lparr>li_y = 300, li_text = str ''ARTICLE INFO'', li_max_size = 9\<rparr>] 700 = 70
   \<and> absinfo_y_of 700
     [\<lparr>li_y = 100, li_text = str ''A Big Title'', li_max_size = 20\<rparr>,
      \<lparr>li_y = 245, li_text = str ''ScienceDirect'', li_max_size = 9\<rparr>,
      \<lparr>li_y = 300, li_text = str ''ARTICLE INFO'', li_max_size = 9\<rparr>] = 300
   \<and> fm_title (front_matter_of_lines 700
     [\<lparr>li_y = 100, li_text = str ''A Big Title'', li_max_size = 20\<rparr>,
      \<lparr>li_y = 245, li_text = str ''ScienceDirect'', li_max_size = 9\<rparr>,
      \<lparr>li_y = 300, li_text = str ''ARTICLE INFO'', li_max_size = 9\<rparr>]) = str ''A Big Title''"
proof -
  let ?ls = "[\<lparr>li_y = 100, li_text = str ''A Big Title'', li_max_size = 20\<rparr>,
      \<lparr>li_y = 245, li_text = str ''ScienceDirect'', li_max_size = 9\<rparr>,
      \<lparr>li_y = 300, li_text = str ''ARTICLE INFO'', li_max_size = (9::pyfloat)\<rparr>]"
  have below: "py_mul 700 (binary64 0.35) < 245"
    by code_simp
  have anchor: "find (\<lambda>li. re_found RE_ARTINFO (li_text li)) ?ls
      = Some \<lparr>li_y = 300, li_text = str ''ARTICLE INFO'', li_max_size = 9\<rparr>"
    by code_simp
  have cutoff: "(let ys = map li_y (filter (\<lambda>li. is_header_banner (li_text li))
                   (takeWhile (\<lambda>li. li_y li \<le> py_mul 700 (binary64 0.35)) ?ls))
        in if ys = [] then py_mul 700 (binary64 0.10) else py_add (Max (set ys)) 5) = 70"
    by code_simp
  have tops: "top_lines 700 ?ls = [\<lparr>li_y = 100, li_text = str ''A Big Title'', li_max_size = 20\<rparr>]"
    by code_simp
  have title: "fix_merged_text (strip (join [32] (map li_text (title_lines_of
      [\<lparr>li_y = 100, li_text = str ''A Big Title'', li_max_size = 20\<rparr>])))) = str ''A Big Title''"
    by code_simp
  from C2_title_above_45_percent [of ?ls 700]
  have "find_header_end_y ?ls 700 = 70" and "absinfo_y_of 700 ?ls = 300"
    and "fm_title (front_matter_of_lines 700 ?ls) = str ''A Big Title''"
    using anchor cutoff tops title by simp_all
  with below show ?thesis by simp
qed

text \<open>
  C3 (as stated, refuted). With \<open>y_tol = 3\<close>, a word at \<open>y = 3\<close> opens a bucket; the words
  at \<open>y = 0\<close> and \<open>y = 6\<close> that follow are each within 3 of it and join it, although they
  are 6 apart: the three words make one line.
\<close>

theorem C3_counterexample:
  "3 < \<bar>w_top \<lparr>w_text = str ''top'', w_x0 = 20, w_x1 = 30, w_top = 0, w_size = Some 10\<rparr>
        - w_top \<lparr>w_text = str ''low'', w_x0 = 40, w_x1 = 50, w_top = 6, w_size = Some 10\<rparr>\<bar>
   \<and> assign_buckets 3
     [\<lparr>w_text = str ''mid'', w_x0 = 0, w_x1 = 10, w_top = 3, w_size = Some 10\<rparr>,
      \<lparr>w_text = str ''top'', w_x0 = 20, w_x1 = 30, w_top = 0, w_size = Some 10\<rparr>,
      \<lparr>w_text = str ''low'', w_x0 = 40, w_x1 = 50, w_top = 6, w_size = Some 10\<rparr>]
   = [\<lparr>b_y = 3, b_ws =
       [\<lparr>w_text = str ''mid'', w_x0 = 0, w_x1 = 10, w_top = 3, w_size = Some 10\<rparr>,
        \<lparr>w_text = str ''top'', w_x0 = 20, w_x1 = 30, w_top = 0, w_size = Some 10\<rparr>,
        \<lparr>w_text = str ''low'', w_x0 = 40, w_x1 = 50, w_top = 6, w_size = Some 10\<rparr>]\<rparr>]
   \<and> cluster_lines 3 3
     [\<lparr>w_text = str ''mid'', w_x0 = 0, w_x1 = 10, w_top = 3, w_size = Some 10\<rparr>,
      \<lparr>w_text = str ''top'', w_x0 = 20, w_x1 = 30, w_top = 0, w_size = Some 10\<rparr>,
      \<lparr>w_text = str ''low'', w_x0 = 40, w_x1 = 50, w_top = 6, w_size = Some 10\<rparr>]
   = [\<lparr>li_y = 3, li_text = str ''mid top low'', li_max_size = 10\<rparr>]"
  by code_simp

text \<open>
  C3 (amended). For a tolerance \<open>y_tol \<ge> 0\<close>, every line has the \<open>y\<close> of the first word
  placed in its bucket, and every word of the bucket is within \<open>y_tol\<close> of that \<open>y\<close>, the
  distance being the one the program computes, the absolute value of the float
  difference. The words of a line are compared with its first word only, never with each
  other.
\<close>

theorem C3_words_near_first_word:
  assumes "0 \<le> y_tol" and "li \<in> set (cluster_lines y_tol x_tol words)"
  shows "\<exists>b\<in>set (assign_buckets y_tol words). \<exists>w ws.
           b_ws b = w # ws \<and> li_y li = w_top w
           \<and> li_text li = line_text x_tol (sort_key w_x0 (b_ws b))
           \<and> list_all (\<lambda>v. \<bar>py_sub (li_y li) (w_top v)\<bar> \<le> y_tol) (b_ws b)"
proof -
  from cluster_lines_bucket [OF assms(2)] obtain b
    where b: "b \<in> set (assign_buckets y_tol words)" and y: "li_y li = b_y b"
      and t: "li_text li = line_text x_tol (sort_key w_x0 (b_ws b))"
    by blast
  from assign_buckets_ok [OF assms(1) b]
  have ne: "b_ws b \<noteq> []" and first: "b_y b = w_top (hd (b_ws b))"
    and near: "list_all (\<lambda>v. \<bar>py_sub (b_y b) (w_top v)\<bar> \<le> y_tol) (b_ws b)"
    unfolding bucket_ok_def by blast+
  from ne obtain w ws where ws: "b_ws b = w # ws" by (cases "b_ws b") auto
  with first y have top: "li_y li = w_top w" by simp
  from near y have "list_all (\<lambda>v. \<bar>py_sub (li_y li) (w_top v)\<bar> \<le> y_tol) (b_ws b)" by simp
  with b ws top t show ?thesis by blast
qed

text \<open>The tops \<open>3.2\<close>, \<open>0.2\<close> and \<open>6.2\<close> as floats: the last two are more than twice
  \<open>y_tol = 3\<close> apart, and each float difference from \<open>3.2\<close> is exactly 3.\<close>

theorem C3_words_near_first_word_witness:
  "6 < binary64 6.2 - binary64 0.2
   \<and> cluster_lines 3 3
     [\<lparr>w_text = str ''mid'', w_x0 = 0, w_x1 = 10, w_top = binary64 3.2, w_size = Some 10\<rparr>,
      \<lparr>w_text = str ''top'', w_x0 = 20, w_x1 = 30, w_top = binary64 0.2, w_size = Some 10\<rparr>,
      \<lparr>w_text = str ''low'', w_x0 = 40, w_x1 = 50, w_top = binary64 6.2, w_size = Some 10\<rparr>]
     = [\<lparr>li_y = binary64 3.2, li_text = str ''mid top low'', li_max_size = 10\<rparr>]
   \<and> (\<exists>b\<in>set (assign_buckets 3
         [\<lparr>w_text = str ''mid'', w_x0 = 0, w_x1 = 10, w_top = binary64 3.2, w_size = Some 10\<rparr>,
          \<lparr>w_text = str ''top'', w_x0 = 20, w_x1 = 30, w_top = binary64 0.2, w_size = Some 10\<rparr>,
          \<lparr>w_text = str ''low'', w_x0 = 40, w_x1 = 50, w_top = binary64 6.2, w_size = Some 10\<rparr>]).
        length (b_ws b) = 3
        \<and> list_all (\<lambda>v. \<bar>py_sub (binary64 3.2) (w_top v)\<bar> \<le> 3) (b_ws b))"
proof -
  let ?ws = "[\<lparr>w_text = str ''mid'', w_x0 = 0, w_x1 = 10, w_top = binary64 3.2, w_size = Some 10\<rparr>,
      \<lparr>w_text = str ''top'', w_x0 = 20, w_x1 = 30, w_top = binary64 0.2, w_size = Some 10\<rparr>,
      \<lparr>w_text = str ''low'', w_x0 = 40, w_x1 = 50, w_top = binary64 6.2, w_size = Some (10::pyfloat)\<rparr>]"
  let ?li = "\<lparr>li_y = binary64 3.2, li_text = str ''mid top low'', li_max_size = 10\<rparr>"
  have apart: "6 < binary64 6.2 - binary64 0.2"
    by code_simp
  have lines: "cluster_lines 3 3 ?ws = [?li]"
    by code_simp
  have one: "length (assign_buckets 3 ?ws) = 1 \<and> length (b_ws (hd (assign_buckets 3 ?ws))) = 3"
    by code_simp
  have "?li \<in> set (cluster_lines 3 3 ?ws)"
    by (simp only: lines list.set_intros)
  from C3_words_near_first_word [OF _ this] obtain b
    where b: "b \<in> set (assign_buckets 3 ?ws)"
      and near: "list_all (\<lambda>v. \<bar>py_sub (li_y ?li) (w_top v)\<bar> \<le> 3) (b_ws b)"
    by auto
  from one obtain b0 where "assign_buckets 3 ?ws = [b0]" and "length (b_ws b0) = 3"
    by (cases "assign_buckets 3 ?ws") auto
  with b have "length (b_ws b) = 3" by simp
  with b near have "\<exists>b\<in>set (assign_buckets 3 ?ws). length (b_ws b) = 3
      \<and> list_all (\<lambda>v. \<bar>py_sub (binary64 3.2) (w_top v)\<bar> \<le> 3) (b_ws b)"
    by auto
  with apart lines show ?thesis by blast
qed

text \<open>
  C4 (as stated, refuted). Two words on one line whose gap is 0, below \<open>x_tol = 3\<close>: the
  claim joins them into \<open>abcd\<close>, the program returns \<open>ab cd\<close>.
\<close>

theorem C4_counterexample:
  "cluster_lines 3 3
     [\<lparr>w_text = str ''ab'', w_x0 = 0, w_x1 = 10, w_top = 0, w_size = Some 10\<rparr>,
      \<lparr>w_text = str ''cd'', w_x0 = 10, w_x1 = 20, w_top = 0, w_size = Some 10\<rparr>]
   = [\<lparr>li_y = 0, li_text = str ''ab cd'', li_max_size = 10\<rparr>]
   \<and> spec_line_text 3
     [\<lparr>w_text = str ''ab'', w_x0 = 0, w_x1 = 10, w_top = 0, w_size = Some 10\<rparr>,
      \<lparr>w_text = str ''cd'', w_x0 = 10, w_x1 = 20, w_top = 0, w_size = Some 10\<rparr>]
   = str ''abcd''"
  by code_simp

text \<open>
  C4 (amended). The text of a line does not depend on \<open>x_tol\<close>: it is the pieces of the
  words' texts between white space, in the order of the words, joined by single spaces.
  When no word text is empty or contains white space, it is the words' texts joined by
  single spaces: one space between every two consecutive words, whatever their gap.
\<close>

theorem C4_one_space_whatever_the_gap:
  "line_text x_tol ws = join [32] (concat (map (\<lambda>w. split_ws (w_text w)) ws))
   \<and> ((\<forall>w\<in>set ws. w_text w \<noteq> [] \<and> (\<forall>c\<in>set (w_text w). \<not> isspace c)) \<longrightarrow>
        line_text x_tol ws = join [32] (map w_text ws))"
proof (intro conjI impI)
  show tokens: "line_text x_tol ws = join [32] (concat (map (\<lambda>w. split_ws (w_text w)) ws))"
    by (rule line_text_tokens)
  assume "\<forall>w\<in>set ws. w_text w \<noteq> [] \<and> (\<forall>c\<in>set (w_text w). \<not> isspace c)"
  then have "concat (map (\<lambda>w. split_ws (w_text w)) ws) = map w_text ws"
    by (induction ws) (simp_all add: split_ws_clean)
  with tokens show "line_text x_tol ws = join [32] (map w_text ws)" by simp
qed

theorem C4_one_space_whatever_the_gap_witness:
  "line_text 3
     [\<lparr>w_text = str ''ab'', w_x0 = 0, w_x1 = 10, w_top = 0, w_size = Some 10\<rparr>,
      \<lparr>w_text = str ''cd'', w_x0 = 10, w_x1 = 20, w_top = 0, w_size = Some 10\<rparr>] = str ''ab cd''
   \<and> line_text 3
     [\<lparr>w_text = str ''ab'', w_x0 = 0, w_x1 = 10, w_top = 0, w_size = Some 10\<rparr>,
      \<lparr>w_text = str ''cd'', w_x0 = 30, w_x1 = 40, w_top = 0, w_size = Some 10\<rparr>] = str ''ab cd''"
proof -
  let ?near = "[\<lparr>w_text = str ''ab'', w_x0 = 0, w_x1 = 10, w_top = 0, w_size = Some 10\<rparr>,
      \<lparr>w_text = str ''cd'', w_x0 = 10, w_x1 = 20, w_top = 0, w_size = Some (10::pyfloat)\<rparr>]"
  let ?far = "[\<lparr>w_text = str ''ab'', w_x0 = 0, w_x1 = 10, w_top = 0, w_size = Some 10\<rparr>,
      \<lparr>w_text = str ''cd'', w_x0 = 30, w_x1 = 40, w_top = 0, w_size = Some (10::pyfloat)\<rparr>]"
  have near: "\<forall>w\<in>set ?near. w_text w \<noteq> [] \<and> (\<forall>c\<in>set (w_text w). \<not> isspace c)"
    by code_simp
  have far: "\<forall>w\<in>set ?far. w_text w \<noteq> [] \<and> (\<forall>c\<in>set (w_text w). \<not> isspace c)"
    by code_simp
  have joined: "join [32] [str ''ab'', str ''cd''] = str ''ab cd''"
    by code_simp
  from C4_one_space_whatever_the_gap [of 3 ?near] near
  have "line_text 3 ?near = join [32] (map w_text ?near)" by blast
  with joined have n: "line_text 3 ?near = str ''ab cd''" by simp
  from C4_one_space_whatever_the_gap [of 3 ?far] far
  have "line_text 3 ?far = join [32] (map w_text ?far)" by blast
  with joined have f: "line_text 3 ?far = str ''ab cd''" by simp
  from n f show ?thesis by (rule conjI)
qed

text \<open>
  C5 (the code departs from the claim). The line \<open>aDepartment of Physics\<close> begins with a
  lower-case letter directly followed by a capital, and the zone locator takes it for a
  marker line; yet \<open>parse_affiliations_with_markers\<close> opens no entry for it: the second
  key pattern ends in \<^verbatim>\<open>. *\<close> where \<^verbatim>\<open>.*\<close> was meant, and so accepts one character
  after the capital and no more.
\<close>

theorem C5_glued_marker_line_opens_no_entry:
  "is_marker_line (str ''aDepartment of Physics'')
   \<and> parse_affiliations_with_markers
       [\<lparr>li_y = y, li_text = str ''aDepartment of Physics'', li_max_size = s\<rparr>] = []"
  by code_simp

theorem C5_glued_marker_line_opens_no_entry_witness:
  "is_marker_line (str ''aDepartment of Physics'')
   \<and> parse_affiliations_with_markers
       [\<lparr>li_y = 120, li_text = str ''aDepartment of Physics'', li_max_size = 8\<rparr>] = []"
  using C5_glued_marker_line_opens_no_entry [of 120 8] by simp

text \<open>
  C6 (as stated, refuted). The repair function returns \<open>JaneDoe\<close> as it is, without a
  space before the second capital.
\<close>

theorem C6_counterexample:
  "fix_merged_text (str ''JaneDoe'') = str ''JaneDoe''
   \<and> fix_merged_text (str ''JaneDoe'') \<noteq> str ''Jane Doe''"
  by code_simp

text \<open>
  C6 (amended). A text of at most 10 characters (after stripping) is returned stripped
  and otherwise unchanged; a single word of 11 to 15 characters is returned with a space
  between every lower-case letter and the capital that follows it.
\<close>

theorem C6_repair_needs_length:
  "(length (strip s) \<le> 10 \<longrightarrow> fix_merged_text s = strip s)
   \<and> (length (split_ws (strip s)) = 1 \<and> 10 < length (strip s) \<and> length (strip s) \<le> 15
        \<longrightarrow> fix_merged_text s = re_sub RE_CAMEL repl_1_2 (strip s))"
proof (cases "s = []")
  case True
  then show ?thesis by (simp add: fix_merged_text_def strip_Nil)
next
  case False
  then show ?thesis by (simp add: fix_merged_text_def Let_def)
qed

theorem C6_repair_needs_length_witness:
  "fix_merged_text (str ''JaneDoe'') = str ''JaneDoe''
   \<and> fix_merged_text (str ''JonathanDoe'') = str ''Jonathan Doe''"
proof -
  have short: "length (strip (str ''JaneDoe'')) \<le> 10"
    by code_simp
  have long: "length (split_ws (strip (str ''JonathanDoe''))) = 1
      \<and> 10 < length (strip (str ''JonathanDoe'')) \<and> length (strip (str ''JonathanDoe'')) \<le> 15"
    by code_simp
  have stripped: "strip (str ''JaneDoe'') = str ''JaneDoe''"
    by code_simp
  have repaired: "re_sub RE_CAMEL repl_1_2 (strip (str ''JonathanDoe'')) = str ''Jonathan Doe''"
    by code_simp
  from short long stripped repaired
    C6_repair_needs_length [of "str ''JaneDoe''"] C6_repair_needs_length [of "str ''JonathanDoe''"]
  show ?thesis by simp
qed

text \<open>
  C7 (the code departs from the claim). On the author text of the claim the unmarked
  path returns one author, \<open>Jane Doe\<close>: \<open>is_likely_affiliation\<close> looks for the keyword
  \<open>mit\<close> anywhere in the collapsed lower-case text and finds it inside \<open>johnsmith\<close>, so
  \<open>John Smith\<close> is moved to the end of the affiliation text.
\<close>

theorem C7_john_smith_taken_for_affiliation:
  "is_likely_affiliation (str ''John Smith'')
   \<and> parse_authors_without_markers
       (str ''Jane Doe, John Smith, Department of Computer Science, MIT, USA'')
     = ([\<lparr>name = str ''Jane Doe'', markers = [], corresponding = False\<rparr>],
        str ''Department of Computer Science, MIT, USA, John Smith'')"
  by code_simp

text \<open>
  C8. On the three lines \<open>Keywords: machine learning, NLP\<close>, \<open>Abstract\<close> and
  \<open>We propose...\<close>, whatever their positions and font sizes, the keywords are
  \<open>machine learning, NLP\<close>, the abstract is \<open>We propose...\<close>, and the abstract does not
  contain the word \<open>Abstract\<close>.
\<close>

theorem C8_keywords_abstract_boundary:
  "extract_kw_abs_from_lines
     [\<lparr>li_y = y1, li_text = str ''Keywords: machine learning, NLP'', li_max_size = s1\<rparr>,
      \<lparr>li_y = y2, li_text = str ''Abstract'', li_max_size = s2\<rparr>,
      \<lparr>li_y = y3, li_text = str ''We propose...'', li_max_size = s3\<rparr>]
   = (str ''machine learning, NLP'', str ''We propose...'')
   \<and> \<not> contains (str ''Abstract'') (snd (extract_kw_abs_from_lines
     [\<lparr>li_y = y1, li_text = str ''Keywords: machine learning, NLP'', li_max_size = s1\<rparr>,
      \<lparr>li_y = y2, li_text = str ''Abstract'', li_max_size = s2\<rparr>,
      \<lparr>li_y = y3, li_text = str ''We propose...'', li_max_size = s3\<rparr>]))"
  by code_simp

text \<open>
  C9. When no line of the zone is a stop line, a marker line or a line with an
  affiliation cue, the first two lines of the zone are the author block and the others the
  affiliation block, and the zone is resolved on the path without markers. The functions
  of the model are total, as those of the program are on this path: slicing a short list
  and parsing an empty text raise nothing.
\<close>

theorem C9_first_two_lines_are_authors:
  assumes "\<forall>li\<in>set zone. \<not> is_stop_line (strip (li_text li))
      \<and> \<not> is_marker_line (strip (li_text li)) \<and> \<not> re_found AFF_CUES (strip (li_text li))"
  shows "split_zone zone = (False, take 2 zone, drop 2 zone)
    \<and> resolve_zone zone = resolve_blocks False (take 2 zone) (drop 2 zone)"
  using find_aff_start_None [OF assms, of 0] by (simp add: split_zone_def resolve_zone_def)

theorem C9_first_two_lines_are_authors_witness:
  "split_zone
     [\<lparr>li_y = 300, li_text = str ''Jane Doe, John Roe'', li_max_size = 11\<rparr>,
      \<lparr>li_y = 315, li_text = str ''Maria Rossi'', li_max_size = 11\<rparr>,
      \<lparr>li_y = 330, li_text = str ''Via Roma 1, Torino'', li_max_size = 9\<rparr>]
   = (False,
      [\<lparr>li_y = 300, li_text = str ''Jane Doe, John Roe'', li_max_size = 11\<rparr>,
       \<lparr>li_y = 315, li_text = str ''Maria Rossi'', li_max_size = 11\<rparr>],
      [\<lparr>li_y = 330, li_text = str ''Via Roma 1, Torino'', li_max_size = 9\<rparr>])"
proof -
  have no_split_point:
    "\<forall>li\<in>set [\<lparr>li_y = 300, li_text = str ''Jane Doe, John Roe'', li_max_size = 11\<rparr>,
        \<lparr>li_y = 315, li_text = str ''Maria Rossi'', li_max_size = 11\<rparr>,
        \<lparr>li_y = 330, li_text = str ''Via Roma 1, Torino'', li_max_size = 9\<rparr>].
      \<not> is_stop_line (strip (li_text li))
      \<and> \<not> is_marker_line (strip (li_text li)) \<and> \<not> re_found AFF_CUES (strip (li_text li))"
    by code_simp
  from C9_first_two_lines_are_authors [OF no_split_point] show ?thesis by simp
qed

text \<open>
  C10. The flattened author text is the same when every marker that is a single
  lower-case letter is removed from every author: such markers leave no trace in it, and
  only the markers made of digits are appended to the names, as superscripts. For
  \<open>Jane Doe\<close> with the markers \<open>1\<close> and \<open>a\<close>, corresponding, and \<open>John Roe\<close> with the
  marker \<open>b\<close> the text is \<open>Jane Doe\<close>, superscript one (U+00B9), a space and the
  asterisk U+2217, then \<open>, John Roe\<close>.
\<close>

theorem C10_letter_markers_dropped:
  "flatten_authors
     (map (\<lambda>a. a\<lparr>markers := filter (\<lambda>m. \<not> re_fullmatch (Cls is_az) m) (markers a)\<rparr>) authors)
   = flatten_authors authors
   \<and> flatten_authors
       [\<lparr>name = str ''Jane Doe'', markers = [str ''1'', str ''a''], corresponding = True\<rparr>,
        \<lparr>name = str ''John Roe'', markers = [str ''b''], corresponding = False\<rparr>]
     = str ''Jane Doe'' @ [185, 32, 8727] @ str '', John Roe''"
proof
  show "flatten_authors
     (map (\<lambda>a. a\<lparr>markers := filter (\<lambda>m. \<not> re_fullmatch (Cls is_az) m) (markers a)\<rparr>) authors)
   = flatten_authors authors"
    by (simp add: flatten_authors_def flatten_author_drop_letters comp_def)
  show "flatten_authors
       [\<lparr>name = str ''Jane Doe'', markers = [str ''1'', str ''a''], corresponding = True\<rparr>,
        \<lparr>name = str ''John Roe'', markers = [str ''b''], corresponding = False\<rparr>]
     = str ''Jane Doe'' @ [185, 32, 8727] @ str '', John Roe''"
    by code_simp
qed

end
